theory Spec2Isabelle
  imports Complex_Main
begin

section \<open>The Masonry grid of \<^verbatim>\<open>src/Masonry/Masonry.js\<close>\<close>

text \<open>
  The grid engine is a single React component class. Its instance fields and its
  \<^verbatim>\<open>this.state\<close> are threaded through the model as one record, every method
  taking the record and returning the updated one. JavaScript numbers are doubles. The
  geometry of the items is computed from \<^verbatim>\<open>clientWidth\<close>/\<^verbatim>\<open>clientHeight\<close> and the
  gutter by additions, which are exact on integer pixel values, and is modelled over the
  reals, as are the keys (rounding moves the last digit of a fractional key, not the order
  of the keys) and the column count. The viewport multiplies by \<open>0.7\<close>, which no double equals: there every
  operation is rounded to the nearest double. Where JavaScript would continue with
  \<^verbatim>\<open>Infinity\<close> or \<^verbatim>\<open>NaN\<close> (a division by zero), the model says so explicitly
  instead of using HOL's \<open>x / 0 = 0\<close>. Array indices are natural numbers.
  Rendering (the React elements, CSS classes, the \<^verbatim>\<open>serverItems\<close> placeholder list)
  and timers (throttling, debouncing, animation frames) carry no geometry and are left out.
\<close>

subsection \<open>Constants and helpers of the source language\<close>

definition MAX_ITEMS_PER_INSERTION :: nat where
  "MAX_ITEMS_PER_INSERTION = 1"

datatype error =
    TypeError                   \<comment> \<open>a property read on \<^verbatim>\<open>undefined\<close>\<close>
  | CouldNotCalculateColumns    \<comment> \<open>\<^verbatim>\<open>throw new Error('could not calculate columns')\<close>\<close>
  | NonFiniteNumber             \<comment> \<open>the source goes on with \<^verbatim>\<open>Infinity\<close> or \<^verbatim>\<open>NaN\<close>\<close>

text \<open>\<^verbatim>\<open>arr[i]\<close>: \<^verbatim>\<open>undefined\<close> out of range.\<close>

definition elemAt :: "'a list \<Rightarrow> nat \<Rightarrow> 'a option" where
  "elemAt arr i = (if i < length arr then Some (arr ! i) else None)"

text \<open>\<^verbatim>\<open>arr[arr.length - 1]\<close>: \<^verbatim>\<open>undefined\<close> on the empty array.\<close>

definition lastItemOf :: "'a list \<Rightarrow> 'a option" where
  "lastItemOf arr = (if arr = [] then None else Some (last arr))"

text \<open>
  \<^verbatim>\<open>parseInt(x, 10)\<close> of a number that prints in decimal notation, as every key does
  (an integer counter, or an integer plus thousandths): truncation towards zero.
\<close>

definition parseInt10 :: "real \<Rightarrow> int" where
  "parseInt10 x = (if 0 \<le> x then \<lfloor>x\<rfloor> else \<lceil>x\<rceil>)"

text \<open>\<^verbatim>\<open>arr.splice(i, 0, x)\<close>: an index beyond the end inserts at the end.\<close>

definition splice_in :: "nat \<Rightarrow> 'a \<Rightarrow> 'a list \<Rightarrow> 'a list" where
  "splice_in i x arr = take i arr @ [x] @ drop i arr"

subsection \<open>Doubles\<close>

text \<open>
  A double is a real of the form \<open>m * 2 ^ e\<close> with \<open>\<bar>m\<bar> < 2 ^ 53\<close> (and \<open>e \<ge> -1074\<close>).
  \<open>exponent x\<close> is the \<open>e\<close> with \<open>2 ^ e \<le> \<bar>x\<bar> < 2 ^ (e + 1)\<close>, found by halving
  or doubling. \<open>toDouble\<close> rounds a real to the nearest double, ties to the even
  significand, as every arithmetic operation and every decimal literal of the source does.
  Overflow to \<^verbatim>\<open>Infinity\<close> (beyond \<open>2 ^ 1024\<close>) is not represented.
\<close>

function expUp :: "real \<Rightarrow> nat" where
  "expUp x = (if x < 2 then 0 else Suc (expUp (x / 2)))"
  by pat_completeness auto
termination
proof (relation "measure (\<lambda>x. nat \<lfloor>x\<rfloor>)")
  show "wf (measure (\<lambda>x::real. nat \<lfloor>x\<rfloor>))" by simp
next
  fix x :: real
  assume "\<not> x < 2"
  then have "2 \<le> x" by simp
  then have "\<lfloor>x / 2\<rfloor> < \<lfloor>x\<rfloor>" by linarith
  moreover have "0 < \<lfloor>x\<rfloor>" using \<open>2 \<le> x\<close> by linarith
  ultimately show "(x / 2, x) \<in> measure (\<lambda>x. nat \<lfloor>x\<rfloor>)" by simp
qed

function expDown :: "real \<Rightarrow> nat" where
  "expDown x = (if x \<le> 0 \<or> 1 \<le> x then 0 else Suc (expDown (2 * x)))"
  by pat_completeness auto
termination
proof (relation "measure (\<lambda>x. nat \<lfloor>1 / x\<rfloor>)")
  show "wf (measure (\<lambda>x::real. nat \<lfloor>1 / x\<rfloor>))" by simp
next
  fix x :: real
  assume "\<not> (x \<le> 0 \<or> 1 \<le> x)"
  then have x: "0 < x" "x < 1" by simp_all
  define y where "y = 1 / x"
  have y: "1 < y" using x by (simp add: y_def)
  have half: "1 / (2 * x) = y / 2" by (simp add: y_def)
  have pos: "0 < \<lfloor>y\<rfloor>" using y by linarith
  have "\<lfloor>y / 2\<rfloor> < \<lfloor>y\<rfloor>"
  proof (cases "2 \<le> y")
    case True
    then show ?thesis by linarith
  next
    case False
    then have "\<lfloor>y / 2\<rfloor> = 0" using y by (simp add: floor_eq_iff)
    then show ?thesis using pos by simp
  qed
  then have "\<lfloor>1 / (2 * x)\<rfloor> < \<lfloor>1 / x\<rfloor>" unfolding half by (simp only: y_def)
  moreover have "0 < \<lfloor>1 / x\<rfloor>" using pos by (simp only: y_def)
  ultimately show "(2 * x, x) \<in> measure (\<lambda>x. nat \<lfloor>1 / x\<rfloor>)"
    by (simp only: in_measure zless_nat_conj simp_thms)
qed

declare expUp.simps [simp del] expDown.simps [simp del]

definition exponent :: "real \<Rightarrow> int" where
  "exponent x = (if 1 \<le> \<bar>x\<bar> then int (expUp \<bar>x\<bar>) else - int (expDown \<bar>x\<bar>))"

definition roundHalfEven :: "real \<Rightarrow> int" where
  "roundHalfEven y =
     (let f = \<lfloor>y\<rfloor>; r = y - of_int f
      in if r < 1 / 2 then f else if 1 / 2 < r then f + 1 else if even f then f else f + 1)"

definition toDouble :: "real \<Rightarrow> real" where
  "toDouble x =
     (if x = 0 then 0
      else (let ulp = 2 powi (max (exponent x) (- 1022) - 52)
            in of_int (roundHalfEven (x / ulp)) * ulp))"

definition fmul :: "real \<Rightarrow> real \<Rightarrow> real" where
  "fmul a b = toDouble (a * b)"

definition fadd :: "real \<Rightarrow> real \<Rightarrow> real" where
  "fadd a b = toDouble (a + b)"

definition fsub :: "real \<Rightarrow> real \<Rightarrow> real" where
  "fsub a b = toDouble (a - b)"

text \<open>The literal \<^verbatim>\<open>0.7\<close>.\<close>

definition VIRTUAL_BUFFER_FACTOR :: real where
  "VIRTUAL_BUFFER_FACTOR = toDouble (7 / 10)"

subsection \<open>Data\<close>

record 'a GridItem =
  key :: real
  itemData :: 'a
  column :: nat
  width :: real
  height :: real
  left :: real
  top_y :: real
  bottom :: real
  appended :: bool

text \<open>The props that the geometry reads.\<close>

record props =
  columnWidth :: real
  minCols :: int
  flexible :: bool

text \<open>
  What the methods read from the DOM: whether a scroll container is configured, its
  scroll position (\<^verbatim>\<open>scrollY\<close>, \<^verbatim>\<open>scrollTop\<close>, each possibly \<^verbatim>\<open>undefined\<close>), the
  \<^verbatim>\<open>clientWidth\<close> of the grid wrapper's parent (absent when the wrapper is not attached
  to an \<^verbatim>\<open>HTMLElement\<close>), and the two values \<^verbatim>\<open>measureContainer\<close> obtains.
\<close>

record dom =
  hasScrollContainer :: bool
  scrollY :: "real option"
  scrollTop :: "real option"
  parentClientWidth :: "real option"
  measuredContainerHeight :: real
  measuredContainerOffset :: real

text \<open>
  The component: instance fields first, then \<^verbatim>\<open>this.state\<close>. \<open>itemKeyCounter = 0\<close>
  also stands for the field before its first assignment (both are falsy), and
  \<open>serverRefSizes = None\<close> for \<^verbatim>\<open>undefined\<close>. \<open>serverRefs\<close> holds, for each
  server-rendered node, the \<^verbatim>\<open>[clientWidth, clientHeight]\<close> it measures to.
\<close>

record 'a masonry =
  insertedItemsCount :: nat
  itemKeyCounter :: nat
  serverRefs :: "(real \<times> real) list"
  serverRefSizes :: "(real \<times> real) list option"
  columnCount :: int
  itemWidth :: real
  gutterWidth :: real
  containerHeight :: real
  containerOffset :: real
  gridItems :: "'a GridItem list list"
  state_height :: real
  minHeight :: real
  viewportTop :: real
  viewportBottom :: real

subsection \<open>\<^verbatim>\<open>getShortestColumn\<close>\<close>

text \<open>
  The \<^verbatim>\<open>for\<close> loop over \<open>col\<close>, with the columns still to visit as the recursion
  argument; \<open>mn\<close> is the variable \<^verbatim>\<open>min\<close>. \<open>mn\<close> is an index already visited (or the
  current one), so \<open>grid ! mn\<close> is always in range.
\<close>

fun getShortestColumn_loop ::
  "'a GridItem list list \<Rightarrow> 'a GridItem list list \<Rightarrow> nat \<Rightarrow> nat \<Rightarrow> nat" where
  "getShortestColumn_loop grid [] col mn = mn"
| "getShortestColumn_loop grid (colItems # rest) col mn =
     (case lastItemOf colItems of
        None \<Rightarrow> col
      | Some lastItem \<Rightarrow>
          (case lastItemOf (grid ! mn) of
             None \<Rightarrow> getShortestColumn_loop grid rest (col + 1) col
           | Some currMin \<Rightarrow>
               if bottom lastItem < bottom currMin
               then getShortestColumn_loop grid rest (col + 1) col
               else getShortestColumn_loop grid rest (col + 1) mn))"

definition getShortestColumn :: "'a GridItem list list \<Rightarrow> nat" where
  "getShortestColumn grid = getShortestColumn_loop grid grid 0 0"

subsection \<open>Distances and related items\<close>

definition distance :: "real \<times> real \<Rightarrow> real \<times> real \<Rightarrow> real" where
  "distance a b =
     (let x = fst a - fst b; y = snd a - snd b in sqrt ((x * x) + (y * y)))"

text \<open>
  \<open>None\<close> is a non-finite result: the overlapping-rows branch divides by \<open>A.height\<close>.
\<close>

definition calculateDistance ::
  "props \<Rightarrow> real \<Rightarrow> 'a GridItem \<Rightarrow> 'a GridItem \<Rightarrow> real option" where
  "calculateDistance p gutter A B =
     (let w = columnWidth p in
      if column A = column B then
        Some (if top_y A < top_y B
              then top_y B - (bottom A + gutter) - 1
              else top_y A - (bottom B + gutter) - 1)
      else if (top_y A \<le> top_y B \<and> bottom A \<ge> top_y B) \<or>
              (top_y A \<le> bottom B \<and> bottom A \<ge> bottom B) \<or>
              (top_y B \<le> top_y A \<and> bottom B \<ge> top_y A) then
        (let columnWeight = 25;
             columnDistance =
               (real_of_int \<bar>int (column A) - int (column B)\<bar> - 1) * columnWeight
         in if height A = 0 then None
            else Some (columnDistance + (\<bar>top_y A - top_y B\<bar> / height A)))
      else if top_y A < top_y B then
        Some (if left A < left B
              then distance (bottom A, left A + w) (top_y B, left B)
              else distance (bottom A, left A) (top_y B, left B + w))
      else
        Some (if left A < left B
              then distance (top_y A, left A + w) (bottom B, left B)
              else distance (top_y A, left A) (bottom B, left B + w)))"

record related =
  rel_columnIdx :: nat
  rel_itemIdx :: nat
  rel_count :: nat

text \<open>The two nested \<^verbatim>\<open>forEach\<close> loops: every candidate with its distance.\<close>

definition candidates ::
  "props \<Rightarrow> real \<Rightarrow> 'a GridItem list list \<Rightarrow> nat \<Rightarrow> nat \<Rightarrow> 'a GridItem
     \<Rightarrow> (real option \<times> nat \<times> nat) list" where
  "candidates p gutter grid colIdx iIdx itemA =
     concat (map (\<lambda>(otherColIdx, col).
       concat (map (\<lambda>(otherItemIdx, itemB).
         if top_y itemB < top_y itemA - 20 \<or> (colIdx = otherColIdx \<and> iIdx = otherItemIdx)
         then []
         else [(calculateDistance p gutter itemA itemB, otherColIdx, otherItemIdx)])
       (enumerate 0 col)))
     (enumerate 0 grid))"

text \<open>
  The loop filling \<^verbatim>\<open>columnToItemMapping\<close>: the first candidate of a column fixes its
  \<open>itemIdx\<close>, later ones of that column are counted.
\<close>

fun groupByColumn ::
  "(real \<times> nat \<times> nat) list \<Rightarrow> (nat \<rightharpoonup> nat \<times> nat) \<Rightarrow> (nat \<rightharpoonup> nat \<times> nat)" where
  "groupByColumn [] m = m"
| "groupByColumn ((d, c, i) # rest) m =
     (case m c of
        None \<Rightarrow> groupByColumn rest (m(c \<mapsto> (i, 1)))
      | Some (i0, n) \<Rightarrow> groupByColumn rest (m(c \<mapsto> (i0, n + 1))))"

text \<open>
  \<open>None\<close>: some candidate has a non-finite distance, and the order \<^verbatim>\<open>sort\<close> gives is
  then left to the engine. \<^verbatim>\<open>Object.keys\<close> lists integer keys in ascending order.
\<close>

definition getItemsRelatedTo ::
  "props \<Rightarrow> 'a masonry \<Rightarrow> nat \<Rightarrow> nat \<Rightarrow> nat \<Rightarrow> related list option" where
  "getItemsRelatedTo p s colIdx iIdx noItems =
     (case elemAt (gridItems s) colIdx of
        None \<Rightarrow> Some []
      | Some col \<Rightarrow>
          (case elemAt col iIdx of
             None \<Rightarrow> Some []
           | Some itemA \<Rightarrow>
               (let allItems = candidates p (gutterWidth s) (gridItems s) colIdx iIdx itemA in
                if \<exists>c \<in> set allItems. fst c = None then None
                else
                  (let sorted = sort_key fst (map (\<lambda>(d, c, i). (the d, c, i)) allItems);
                       columnToItemMapping = groupByColumn (take noItems sorted) Map.empty
                   in Some (List.map_filter
                        (\<lambda>c. map_option (\<lambda>(i, n). \<lparr>rel_columnIdx = c, rel_itemIdx = i, rel_count = n\<rparr>)
                                (columnToItemMapping c))
                        [0 ..< length (gridItems s)])))))"

subsection \<open>\<^verbatim>\<open>insertItems\<close>\<close>

text \<open>
  \<open>measureItem w x\<close> stands for the off-screen measurement: the
  \<^verbatim>\<open>(clientWidth, clientHeight)\<close> of item \<open>x\<close> rendered into a wrapper of width \<open>w\<close>.
\<close>

definition previousItemInColumn ::
  "'a GridItem list list \<Rightarrow> nat option \<Rightarrow> nat option \<Rightarrow> 'a GridItem option" where
  "previousItemInColumn grid colIdx itemIdx =
     (case colIdx of
        None \<Rightarrow> None
      | Some c \<Rightarrow>
          (case itemIdx of
             None \<Rightarrow> None
           | Some i \<Rightarrow>
               (case elemAt grid c of
                  None \<Rightarrow> None
                | Some col \<Rightarrow> if i = 0 then None else elemAt col (i - 1))))"

text \<open>An empty grid first gets \<open>columnCount\<close> empty columns.\<close>

definition initColumns :: "int \<Rightarrow> 'a GridItem list list \<Rightarrow> 'a GridItem list list" where
  "initColumns n grid = (if grid = [] then replicate (nat n) [] else grid)"

text \<open>The choice of \<^verbatim>\<open>items\<close>: how much of \<^verbatim>\<open>newItems\<close> this call places.\<close>

definition selectItems :: "'a masonry \<Rightarrow> 'a list \<Rightarrow> bool \<Rightarrow> 'a list" where
  "selectItems s newItems forceUpdate =
     (if forceUpdate then newItems
      else if serverRefs s \<noteq> [] \<and> insertedItemsCount s < length (serverRefs s)
        then take (length (serverRefs s) - insertedItemsCount s) newItems
      else if length newItems > MAX_ITEMS_PER_INSERTION
        then take MAX_ITEMS_PER_INSERTION newItems
      else newItems)"

definition resolveServerRefSizes :: "'a masonry \<Rightarrow> (real \<times> real) list option" where
  "resolveServerRefSizes s =
     (if serverRefSizes s = None \<and> length (serverRefs s) > 0
      then Some (serverRefs s) else serverRefSizes s)"

text \<open>The key of one new item, \<open>counter\<close> being \<^verbatim>\<open>this.itemKeyCounter\<close> at that item.\<close>

definition itemKey ::
  "nat option \<Rightarrow> nat option \<Rightarrow> 'a GridItem option \<Rightarrow> nat \<Rightarrow> real" where
  "itemKey colIdx itemIdx prev counter =
     (if colIdx \<noteq> None \<and> itemIdx \<noteq> None then
        (let counterAsDecimal = real (counter mod 10000) / 1000 in
         case prev of
           Some p \<Rightarrow> real_of_int (parseInt10 (key p)) + counterAsDecimal
         | None \<Rightarrow> counterAsDecimal)
      else real counter)"

text \<open>
  One element of \<^verbatim>\<open>itemInfos\<close>: key, data and size are known, the geometry is not yet
  (the fields still \<^verbatim>\<open>undefined\<close> in the source are \<open>0\<close> and \<open>False\<close> here).
\<close>

definition newItemInfo ::
  "(real \<Rightarrow> 'a \<Rightarrow> real \<times> real) \<Rightarrow> 'a masonry \<Rightarrow> (real \<times> real) list option
     \<Rightarrow> nat option \<Rightarrow> nat option \<Rightarrow> 'a GridItem option \<Rightarrow> nat \<Rightarrow> nat \<Rightarrow> 'a \<Rightarrow> 'a GridItem" where
  "newItemInfo measureItem s sizes colIdx itemIdx prev counter insertedItemIdx x =
     (let actualIdx = insertedItemIdx + insertedItemsCount s;
          sizeInfo = (case sizes of
                        Some szs \<Rightarrow> if actualIdx < length szs then szs ! actualIdx
                                    else measureItem (itemWidth s) x
                      | None \<Rightarrow> measureItem (itemWidth s) x)
      in \<lparr>key = itemKey colIdx itemIdx prev counter, itemData = x, column = 0,
          width = fst sizeInfo, height = snd sizeInfo, left = 0, top_y = 0, bottom = 0,
          appended = False\<rparr>)"

definition itemInfos ::
  "(real \<Rightarrow> 'a \<Rightarrow> real \<times> real) \<Rightarrow> 'a masonry \<Rightarrow> (real \<times> real) list option
     \<Rightarrow> nat option \<Rightarrow> nat option \<Rightarrow> 'a GridItem option \<Rightarrow> nat \<Rightarrow> 'a list \<Rightarrow> 'a GridItem list" where
  "itemInfos measureItem s sizes colIdx itemIdx prev counter0 items =
     map (\<lambda>(insertedItemIdx, x).
            newItemInfo measureItem s sizes colIdx itemIdx prev
              (counter0 + insertedItemIdx) insertedItemIdx x)
         (enumerate 0 items)"

definition shiftItem :: "real \<Rightarrow> 'a GridItem \<Rightarrow> 'a GridItem" where
  "shiftItem offset g = g\<lparr>top_y := top_y g + offset, bottom := bottom g + offset\<rparr>"

text \<open>The \<^verbatim>\<open>splice\<close> into the target column and the shift of the items below.\<close>

definition insertIntoColumn :: "nat \<Rightarrow> 'a GridItem \<Rightarrow> 'a GridItem list \<Rightarrow> 'a GridItem list" where
  "insertIntoColumn i itemInfo col =
     (let col1 = splice_in i itemInfo col in
      if i < length col1 - 1 then
        (let offset = bottom (col1 ! i) - top_y (col1 ! (i + 1)) in
         take (i + 1) col1 @ map (shiftItem offset) (drop (i + 1) col1))
      else col1)"

text \<open>One pass of the \<^verbatim>\<open>items.forEach\<close> that inserts into the grid.\<close>

definition placeItem ::
  "'a masonry \<Rightarrow> nat option \<Rightarrow> nat option \<Rightarrow> 'a GridItem option
     \<Rightarrow> 'a GridItem list list \<Rightarrow> 'a GridItem \<Rightarrow> error + 'a GridItem list list" where
  "placeItem s colIdx itemIdx prev grid itemInfo =
     (if colIdx \<noteq> None \<and> itemIdx \<noteq> None then
        (let c = the colIdx; i = the itemIdx in
         case elemAt grid c of
           None \<Rightarrow> Inr grid
         | Some col \<Rightarrow>
             (let l = real c * itemWidth s;
                  t = (case prev of Some p \<Rightarrow> bottom p | None \<Rightarrow> 0);
                  info = itemInfo\<lparr>column := c, left := l, top_y := t,
                                  bottom := t + height itemInfo + gutterWidth s\<rparr>
              in Inr (grid[c := insertIntoColumn i info col])))
      else
        (let c = getShortestColumn grid in
         case elemAt grid c of
           None \<Rightarrow> Inl TypeError
         | Some col \<Rightarrow>
             (let t = (case lastItemOf col of
                         None \<Rightarrow> 0
                       | Some lastItemInColumn \<Rightarrow>
                           if bottom lastItemInColumn \<noteq> 0 then bottom lastItemInColumn else 0);
                  l = real c * itemWidth s;
                  info = itemInfo\<lparr>column := c, appended := True, left := l, top_y := t,
                                  bottom := t + height itemInfo + gutterWidth s\<rparr>
              in Inr (grid[c := col @ [info]]))))"

fun placeItems ::
  "'a masonry \<Rightarrow> nat option \<Rightarrow> nat option \<Rightarrow> 'a GridItem option
     \<Rightarrow> 'a GridItem list list \<Rightarrow> 'a GridItem list \<Rightarrow> error + 'a GridItem list list" where
  "placeItems s colIdx itemIdx prev grid [] = Inr grid"
| "placeItems s colIdx itemIdx prev grid (itemInfo # rest) =
     (case placeItem s colIdx itemIdx prev grid itemInfo of
        Inl e \<Rightarrow> Inl e
      | Inr grid' \<Rightarrow> placeItems s colIdx itemIdx prev grid' rest)"

text \<open>The closing loop: the longest column, and the shortest non-empty one.\<close>

definition gridHeight :: "'a GridItem list list \<Rightarrow> real" where
  "gridHeight grid =
     foldl (\<lambda>h col. case lastItemOf col of
                       Some lastItem \<Rightarrow> if bottom lastItem > h then bottom lastItem else h
                     | None \<Rightarrow> h) 0 grid"

definition gridMinHeight :: "'a GridItem list list \<Rightarrow> real option" where
  "gridMinHeight grid =
     foldl (\<lambda>m col. case lastItemOf col of
                       Some lastItem \<Rightarrow>
                         (case m of
                            None \<Rightarrow> Some (bottom lastItem)
                          | Some mh \<Rightarrow> if mh > bottom lastItem then Some (bottom lastItem) else m)
                     | None \<Rightarrow> m) None grid"

text \<open>
  An exception leaves through \<open>Inl\<close>, without the state. The only one is the
  \<^verbatim>\<open>TypeError\<close> of appending to a grid that has no column.
\<close>

definition insertItems ::
  "(real \<Rightarrow> 'a \<Rightarrow> real \<times> real) \<Rightarrow> 'a masonry \<Rightarrow> 'a list \<Rightarrow> nat option \<Rightarrow> nat option \<Rightarrow> bool
     \<Rightarrow> error + 'a masonry" where
  "insertItems measureItem s newItems colIdx itemIdx forceUpdate =
     (let grid0 = (if forceUpdate then [] else gridItems s);
          prev = previousItemInColumn grid0 colIdx itemIdx;
          grid1 = initColumns (columnCount s) grid0;
          items = selectItems s newItems forceUpdate;
          counter0 = (if itemKeyCounter s = 0 then 1 else itemKeyCounter s);
          sizes = resolveServerRefSizes s;
          infos = itemInfos measureItem s sizes colIdx itemIdx prev counter0 items
      in case placeItems s colIdx itemIdx prev grid1 infos of
           Inl e \<Rightarrow> Inl e
         | Inr grid2 \<Rightarrow>
             Inr (s\<lparr>itemKeyCounter := counter0 + length items,
                    serverRefSizes := sizes,
                    insertedItemsCount :=
                      (if colIdx = None \<and> itemIdx = None
                       then insertedItemsCount s + length items else insertedItemsCount s),
                    gridItems := grid2,
                    state_height := gridHeight grid2,
                    minHeight := (case gridMinHeight grid2 of
                                    Some m \<Rightarrow> if m \<noteq> 0 then m else minHeight s
                                  | None \<Rightarrow> minHeight s)\<rparr>))"

definition setGridItems ::
  "(real \<Rightarrow> 'a \<Rightarrow> real \<times> real) \<Rightarrow> 'a masonry \<Rightarrow> 'a list \<Rightarrow> error + 'a masonry" where
  "setGridItems measureItem s items =
     insertItems measureItem (s\<lparr>insertedItemsCount := 0, serverRefSizes := Some []\<rparr>)
       items None None True"

definition updateItems ::
  "(real \<Rightarrow> 'a \<Rightarrow> real \<times> real) \<Rightarrow> 'a masonry \<Rightarrow> 'a list \<Rightarrow> error + 'a masonry" where
  "updateItems measureItem s items =
     (if length items \<noteq> insertedItemsCount s
      then insertItems measureItem s (drop (insertedItemsCount s) items) None None False
      else Inr s)"

text \<open>
  \<^verbatim>\<open>handleAddRelatedItems\<close>, the only caller that passes a target. The requesting item
  is given by its position (its \<^verbatim>\<open>column\<close> field and its \<^verbatim>\<open>indexOf\<close> in that
  column). Every resolved column receives \<^verbatim>\<open>items.splice(0, count)\<close>: the next
  \<open>count\<close> items, which leave \<^verbatim>\<open>items\<close> whether they get placed or not.
\<close>

fun insertRelated ::
  "(real \<Rightarrow> 'a \<Rightarrow> real \<times> real) \<Rightarrow> 'a masonry \<Rightarrow> 'a list \<Rightarrow> related list \<Rightarrow> error + 'a masonry" where
  "insertRelated measureItem s items [] = Inr s"
| "insertRelated measureItem s items (r # relatedItems) =
     (case insertItems measureItem s (take (rel_count r) items)
             (Some (rel_columnIdx r)) (Some (rel_itemIdx r)) False of
        Inl e \<Rightarrow> Inl e
      | Inr s' \<Rightarrow> insertRelated measureItem s' (drop (rel_count r) items) relatedItems)"

definition handleAddRelatedItems ::
  "(real \<Rightarrow> 'a \<Rightarrow> real \<times> real) \<Rightarrow> props \<Rightarrow> 'a masonry \<Rightarrow> nat \<Rightarrow> nat \<Rightarrow> 'a list
     \<Rightarrow> error + 'a masonry" where
  "handleAddRelatedItems measureItem p s itemColumn itemIndex items =
     (case elemAt (gridItems s) itemColumn of
        None \<Rightarrow> Inl TypeError
      | Some col \<Rightarrow>
          (case getItemsRelatedTo p s itemColumn itemIndex (length items) of
             None \<Rightarrow> Inl NonFiniteNumber
           | Some relatedItems \<Rightarrow> insertRelated measureItem s items relatedItems))"

subsection \<open>Reflow, resize and the viewport\<close>

definition allItems :: "'a masonry \<Rightarrow> 'a GridItem list" where
  "allItems s = (if gridItems s = [] then [] else concat (gridItems s))"

definition measureContainer :: "dom \<Rightarrow> 'a masonry \<Rightarrow> 'a masonry" where
  "measureContainer d s =
     s\<lparr>containerHeight := measuredContainerHeight d,
       containerOffset := measuredContainerOffset d\<rparr>"

text \<open>\<^verbatim>\<open>sort\<close> with the comparator \<^verbatim>\<open>a.key - b.key\<close>, taken as a stable sort.\<close>

definition reflow ::
  "(real \<Rightarrow> 'a \<Rightarrow> real \<times> real) \<Rightarrow> dom \<Rightarrow> 'a masonry \<Rightarrow> error + 'a masonry" where
  "reflow measureItem d s =
     (let s1 = measureContainer d s;
          items = map itemData (sort_key key (allItems s1))
      in setGridItems measureItem (s1\<lparr>itemKeyCounter := 0\<rparr>) items)"

definition calculateColumns :: "props \<Rightarrow> real \<Rightarrow> dom \<Rightarrow> error + int" where
  "calculateColumns p gutter d =
     (if \<not> hasScrollContainer d then Inr 0
      else
        (let eachItemWidth = columnWidth p + gutter in
         case parentClientWidth d of
           Some parentWidth \<Rightarrow>
             if eachItemWidth = 0
             then (if parentWidth < 0 then Inr (minCols p) else Inl NonFiniteNumber)
             else
               (let newColCount = \<lfloor>parentWidth / eachItemWidth\<rfloor> in
                Inr (if newColCount < minCols p then minCols p else newColCount))
         | None \<Rightarrow> Inl CouldNotCalculateColumns))"

definition handleResize ::
  "(real \<Rightarrow> 'a \<Rightarrow> real \<times> real) \<Rightarrow> props \<Rightarrow> dom \<Rightarrow> 'a masonry \<Rightarrow> error + 'a masonry" where
  "handleResize measureItem p d s =
     (case parentClientWidth d of
        None \<Rightarrow> Inr s
      | Some gridWidth \<Rightarrow>
          (case calculateColumns p (gutterWidth s) d of
             Inl e \<Rightarrow> Inl e
           | Inr n \<Rightarrow>
               if flexible p \<and> n = 0 then Inl NonFiniteNumber
               else reflow measureItem d
                      (s\<lparr>columnCount := n,
                         itemWidth := (if flexible p then gridWidth / real_of_int n
                                       else columnWidth p + gutterWidth s)\<rparr>)))"

text \<open>\<^verbatim>\<open>scrollY || scrollTop || 0\<close>: \<^verbatim>\<open>undefined\<close> and \<open>0\<close> are both falsy.\<close>

definition scrollPos :: "dom \<Rightarrow> real" where
  "scrollPos d =
     (case scrollY d of
        Some y \<Rightarrow> if y \<noteq> 0 then y
                  else (case scrollTop d of Some t \<Rightarrow> if t \<noteq> 0 then t else 0 | None \<Rightarrow> 0)
      | None \<Rightarrow> (case scrollTop d of Some t \<Rightarrow> if t \<noteq> 0 then t else 0 | None \<Rightarrow> 0))"

definition updateVirtualBounds :: "dom \<Rightarrow> 'a masonry \<Rightarrow> 'a masonry" where
  "updateVirtualBounds d s =
     (let virtualBuffer = fmul (containerHeight s) VIRTUAL_BUFFER_FACTOR;
          offsetScrollPos = fsub (scrollPos d) (containerOffset s)
      in s\<lparr>viewportTop := fsub offsetScrollPos virtualBuffer,
           viewportBottom := fadd (fadd offsetScrollPos (containerHeight s)) virtualBuffer\<rparr>)"

definition itemIsVisible :: "'a masonry \<Rightarrow> 'a GridItem \<Rightarrow> bool" where
  "itemIsVisible s item =
     (\<not> (bottom item < viewportTop s \<or> top_y item > viewportBottom s))"

section \<open>Properties of the layout\<close>

subsection \<open>Predicates\<close>

text \<open>The \<^verbatim>\<open>bottom\<close> of the last item of column \<open>j\<close>, the quantity the shortest-column rule compares.\<close>

definition lastBottom :: "'a GridItem list list \<Rightarrow> nat \<Rightarrow> real" where
  "lastBottom grid j = bottom (last (grid ! j))"

definition shortestAmong :: "'a GridItem list list \<Rightarrow> nat \<Rightarrow> nat \<Rightarrow> bool" where
  "shortestAmong grid n m \<longleftrightarrow>
     m < n \<and> (\<forall>j<n. lastBottom grid m \<le> lastBottom grid j) \<and> (\<forall>j<m. lastBottom grid m < lastBottom grid j)"

text \<open>
  A column is packed from \<open>t\<close> when its first item starts at \<open>t\<close>, every item ends
  \<open>height + gutter\<close> below its top, and every next item starts where the one before ends.
\<close>

fun packedFrom :: "real \<Rightarrow> real \<Rightarrow> 'a GridItem list \<Rightarrow> bool" where
  "packedFrom g t [] = True"
| "packedFrom g t (x # xs) =
     (top_y x = t \<and> bottom x = top_y x + height x + g \<and> packedFrom g (bottom x) xs)"

definition endOf :: "real \<Rightarrow> 'a GridItem list \<Rightarrow> real" where
  "endOf t xs = (if xs = [] then t else bottom (last xs))"

definition packed :: "real \<Rightarrow> 'a GridItem list list \<Rightarrow> bool" where
  "packed g grid \<longleftrightarrow> (\<forall>col \<in> set grid. packedFrom g 0 col)"

definition columnsOk :: "'a GridItem list list \<Rightarrow> bool" where
  "columnsOk grid \<longleftrightarrow> (\<forall>c < length grid. \<forall>x \<in> set (grid ! c). column x = c)"

text \<open>
  The states the component goes through: it is mounted with an empty grid, the feed appends
  (\<open>insertItems\<close> without a target), items are inserted at a target (\<open>insertItems\<close> with
  any column and index: the method checks neither the index nor, before the loop, the
  column), \<open>setGridItems\<close> rebuilds the grid, a resize recomputes the columns and reflows,
  and scrolling moves the viewport.
\<close>

inductive reachable :: "(real \<Rightarrow> 'a \<Rightarrow> real \<times> real) \<Rightarrow> props \<Rightarrow> 'a masonry \<Rightarrow> bool"
  for measureItem :: "real \<Rightarrow> 'a \<Rightarrow> real \<times> real" and p :: props where
  mount: "gridItems s = [] \<Longrightarrow> reachable measureItem p s"
| feed: "reachable measureItem p s \<Longrightarrow>
         insertItems measureItem s newItems None None False = Inr s' \<Longrightarrow>
         reachable measureItem p s'"
| related: "reachable measureItem p s \<Longrightarrow>
         insertItems measureItem s newItems (Some c) (Some i) False = Inr s' \<Longrightarrow>
         reachable measureItem p s'"
| rebuild: "reachable measureItem p s \<Longrightarrow>
         setGridItems measureItem s items = Inr s' \<Longrightarrow>
         reachable measureItem p s'"
| resize: "reachable measureItem p s \<Longrightarrow>
         handleResize measureItem p d s = Inr s' \<Longrightarrow>
         reachable measureItem p s'"
| scroll: "reachable measureItem p s \<Longrightarrow> reachable measureItem p (updateVirtualBounds d s)"

text \<open>
  The same, with every targeted insertion in range: the target column exists and the target
  index is at most the length of that column.
\<close>

inductive reachedInRange :: "(real \<Rightarrow> 'a \<Rightarrow> real \<times> real) \<Rightarrow> props \<Rightarrow> 'a masonry \<Rightarrow> bool"
  for measureItem :: "real \<Rightarrow> 'a \<Rightarrow> real \<times> real" and p :: props where
  mount: "gridItems s = [] \<Longrightarrow> reachedInRange measureItem p s"
| feed: "reachedInRange measureItem p s \<Longrightarrow>
         insertItems measureItem s newItems None None False = Inr s' \<Longrightarrow>
         reachedInRange measureItem p s'"
| related: "reachedInRange measureItem p s \<Longrightarrow>
         c < length (gridItems s) \<Longrightarrow> i \<le> length (gridItems s ! c) \<Longrightarrow>
         insertItems measureItem s newItems (Some c) (Some i) False = Inr s' \<Longrightarrow>
         reachedInRange measureItem p s'"
| rebuild: "reachedInRange measureItem p s \<Longrightarrow>
         setGridItems measureItem s items = Inr s' \<Longrightarrow>
         reachedInRange measureItem p s'"
| resize: "reachedInRange measureItem p s \<Longrightarrow>
         handleResize measureItem p d s = Inr s' \<Longrightarrow>
         reachedInRange measureItem p s'"
| scroll: "reachedInRange measureItem p s \<Longrightarrow>
         reachedInRange measureItem p (updateVirtualBounds d s)"

subsection \<open>Example data\<close>

definition item_tb :: "real \<Rightarrow> real \<Rightarrow> string GridItem" where
  "item_tb t b = \<lparr>key = 1, itemData = ''x'', column = 0, width = 236, height = b - t - 14,
                  left = 0, top_y = t, bottom = b, appended = True\<rparr>"

definition itemA :: "string GridItem" where
  "itemA = \<lparr>key = 1, itemData = ''A'', column = 0, width = 236, height = 40, left = 0,
            top_y = 0, bottom = 50, appended = True\<rparr>"

definition itemB :: "string GridItem" where
  "itemB = \<lparr>key = 2, itemData = ''B'', column = 0, width = 236, height = 30, left = 0,
            top_y = 80, bottom = 110, appended = True\<rparr>"

definition props0 :: props where
  "props0 = \<lparr>columnWidth = 236, minCols = 3, flexible = False\<rparr>"

definition dom0 :: dom where
  "dom0 = \<lparr>hasScrollContainer = True, scrollY = Some 1000, scrollTop = None,
           parentClientWidth = Some 1000, measuredContainerHeight = 800,
           measuredContainerOffset = 0\<rparr>"

text \<open>A freshly mounted component with \<open>n\<close> columns, and a measurement giving every item height 100.\<close>

definition mounted :: "int \<Rightarrow> string masonry" where
  "mounted n = \<lparr>insertedItemsCount = 0, itemKeyCounter = 0, serverRefs = [],
     serverRefSizes = None, columnCount = n, itemWidth = 250, gutterWidth = 14,
     containerHeight = 800, containerOffset = 0, gridItems = [], state_height = 0,
     minHeight = 0, viewportTop = 0, viewportBottom = 0\<rparr>"

definition measure100 :: "real \<Rightarrow> string \<Rightarrow> real \<times> real" where
  "measure100 w x = (w, 100)"

text \<open>
  A one-column grid fed with \<open>a\<close> and \<open>b\<close>, then with related items inserted at index 1:
  first \<open>r1\<close>, then \<open>r2\<close>. \<open>grid_ab_r\<close> is \<open>grid_ab\<close> after an insertion at the
  index 5, which column 0 does not have. The two-column grid \<open>grid2_ab\<close> gets \<open>r\<close>
  at the head of column 1.
\<close>

definition item100 :: "nat \<Rightarrow> real \<Rightarrow> string \<Rightarrow> real \<Rightarrow> bool \<Rightarrow> string GridItem" where
  "item100 c k x t ap = \<lparr>key = k, itemData = x, column = c, width = 250, height = 100,
     left = real c * 250, top_y = t, bottom = t + 114, appended = ap\<rparr>"

definition grid_a :: "string masonry" where
  "grid_a = mounted 1\<lparr>insertedItemsCount := 1, itemKeyCounter := 2,
     gridItems := [[item100 0 1 ''a'' 0 True]], state_height := 114, minHeight := 114\<rparr>"

definition grid_ab :: "string masonry" where
  "grid_ab = mounted 1\<lparr>insertedItemsCount := 2, itemKeyCounter := 3,
     gridItems := [[item100 0 1 ''a'' 0 True, item100 0 2 ''b'' 114 True]],
     state_height := 228, minHeight := 228\<rparr>"

definition grid_a_r1_b :: "string masonry" where
  "grid_a_r1_b = mounted 1\<lparr>insertedItemsCount := 2, itemKeyCounter := 4,
     gridItems := [[item100 0 1 ''a'' 0 True, item100 0 (1003 / 1000) ''r1'' 114 False,
                    item100 0 2 ''b'' 228 True]],
     state_height := 342, minHeight := 342\<rparr>"

definition grid_a_r2_r1_b :: "string masonry" where
  "grid_a_r2_r1_b = mounted 1\<lparr>insertedItemsCount := 2, itemKeyCounter := 5,
     gridItems := [[item100 0 1 ''a'' 0 True, item100 0 (1004 / 1000) ''r2'' 114 False,
                    item100 0 (1003 / 1000) ''r1'' 228 False, item100 0 2 ''b'' 342 True]],
     state_height := 456, minHeight := 456\<rparr>"

definition grid_ab_r :: "string masonry" where
  "grid_ab_r = mounted 1\<lparr>insertedItemsCount := 2, itemKeyCounter := 4,
     gridItems := [[item100 0 1 ''a'' 0 True, item100 0 2 ''b'' 114 True,
                    item100 0 (3 / 1000) ''r'' 0 False]],
     state_height := 114, minHeight := 114\<rparr>"

definition grid2_ab :: "string masonry" where
  "grid2_ab = mounted 2\<lparr>insertedItemsCount := 2, itemKeyCounter := 3,
     gridItems := [[item100 0 1 ''a'' 0 True], [item100 1 2 ''b'' 0 True]],
     state_height := 114, minHeight := 114\<rparr>"

definition grid2_a_rb :: "string masonry" where
  "grid2_a_rb = mounted 2\<lparr>insertedItemsCount := 2, itemKeyCounter := 4,
     gridItems := [[item100 0 1 ''a'' 0 True],
                   [item100 1 (3 / 1000) ''r'' 0 False, item100 1 2 ''b'' 114 True]],
     state_height := 228, minHeight := 114\<rparr>"

section \<open>The shortest column\<close>

lemma shortestAmong_step:
  assumes "shortestAmong grid n m"
  shows "lastBottom grid n < lastBottom grid m \<Longrightarrow> shortestAmong grid (Suc n) n"
    and "\<not> lastBottom grid n < lastBottom grid m \<Longrightarrow> shortestAmong grid (Suc n) m"
  using assms unfolding shortestAmong_def
  by (fastforce simp: less_Suc_eq)+

lemma getShortestColumn_loop_spec:
  assumes "grid = pre @ rest" and "col = length pre" and "\<forall>c \<in> set pre. c \<noteq> []"
    and "(pre = [] \<and> mn = 0) \<or> shortestAmong grid col mn"
    and "grid \<noteq> []"
  shows "let r = getShortestColumn_loop grid rest col mn in
           r < length grid \<and>
           (if [] \<in> set rest
            then grid ! r = [] \<and> (\<forall>j<r. grid ! j \<noteq> [])
            else shortestAmong grid (length grid) r)"
  using assms
proof (induction rest arbitrary: pre col mn)
  case Nil
  then show ?case by (auto simp: shortestAmong_def)
next
  case (Cons colItems rest)
  have col: "grid ! col = colItems" using Cons.prems by (simp add: nth_append)
  have collt: "col < length grid" using Cons.prems by simp
  show ?case
  proof (cases "colItems = []")
    case True
    have "\<forall>j<col. grid ! j \<noteq> []" using Cons.prems by (auto simp: nth_append)
    then show ?thesis using True col collt by (simp add: lastItemOf_def)
  next
    case False
    have split: "grid = (pre @ [colItems]) @ rest" "col + 1 = length (pre @ [colItems])"
      "\<forall>c \<in> set (pre @ [colItems]). c \<noteq> []"
      using Cons.prems False by auto
    have mn_ne: "grid ! mn \<noteq> []"
    proof (cases "pre = []")
      case True then show ?thesis using Cons.prems False col by (auto simp: shortestAmong_def)
    next
      case F: False
      then have "mn < length pre" using Cons.prems by (auto simp: shortestAmong_def)
      then show ?thesis using Cons.prems by (auto simp: nth_append)
    qed
    have base: "shortestAmong grid (Suc col) (if lastBottom grid col < lastBottom grid mn then col else mn)"
    proof (cases "pre = []")
      case True
      then show ?thesis using Cons.prems by (auto simp: shortestAmong_def)
    next
      case F: False
      then have "shortestAmong grid col mn" using Cons.prems by auto
      then show ?thesis using shortestAmong_step[of grid col mn] by auto
    qed
    let ?mn' = "if lastBottom grid col < lastBottom grid mn then col else mn"
    have step: "getShortestColumn_loop grid (colItems # rest) col mn
        = getShortestColumn_loop grid rest (col + 1) ?mn'"
      using False mn_ne col by (simp add: lastItemOf_def lastBottom_def)
    have "let r = getShortestColumn_loop grid rest (col + 1) ?mn' in
           r < length grid \<and>
           (if [] \<in> set rest
            then grid ! r = [] \<and> (\<forall>j<r. grid ! j \<noteq> [])
            else shortestAmong grid (length grid) r)"
      by (rule Cons.IH[OF split]) (use base Cons.prems in auto)
    then show ?thesis using False unfolding step by (simp add: Let_def)
  qed
qed

lemma getShortestColumn_spec:
  assumes "grid \<noteq> []"
  shows "getShortestColumn grid < length grid"
    and "[] \<in> set grid \<Longrightarrow> grid ! getShortestColumn grid = [] \<and> (\<forall>j<getShortestColumn grid. grid ! j \<noteq> [])"
    and "[] \<notin> set grid \<Longrightarrow> shortestAmong grid (length grid) (getShortestColumn grid)"
  using getShortestColumn_loop_spec[of grid "[]" grid 0 0] assms
  by (auto simp: getShortestColumn_def Let_def)


text \<open>
  Claim C4. On a non-empty array of columns \<open>getShortestColumn\<close> returns a valid index:
  the index of the first empty column if there is one, and otherwise the index of the column
  whose last item has the smallest \<open>bottom\<close>, the lowest such index on a tie. With
  last-item bottoms 100, 40, 90 it returns column 1, and with an empty fourth column it
  returns column 3.
\<close>

theorem getShortestColumn_correct:
  "(grid \<noteq> [] \<longrightarrow>
      getShortestColumn grid < length grid \<and>
      (if [] \<in> set grid
       then grid ! getShortestColumn grid = [] \<and> (\<forall>j < getShortestColumn grid. grid ! j \<noteq> [])
       else (\<forall>j < length grid.
               bottom (last (grid ! getShortestColumn grid)) \<le> bottom (last (grid ! j))) \<and>
            (\<forall>j < getShortestColumn grid.
               bottom (last (grid ! getShortestColumn grid)) < bottom (last (grid ! j))))) \<and>
   (bottom a = 100 \<and> bottom b = 40 \<and> bottom c = 90 \<longrightarrow>
      getShortestColumn [as @ [a], bs @ [b], cs @ [c]] = 1 \<and>
      getShortestColumn [as @ [a], bs @ [b], cs @ [c], []] = 3)"
proof (intro conjI impI)
  assume ne: "grid \<noteq> []"
  show "getShortestColumn grid < length grid" by (rule getShortestColumn_spec(1)[OF ne])
  show "if [] \<in> set grid
       then grid ! getShortestColumn grid = [] \<and> (\<forall>j < getShortestColumn grid. grid ! j \<noteq> [])
       else (\<forall>j < length grid.
               bottom (last (grid ! getShortestColumn grid)) \<le> bottom (last (grid ! j))) \<and>
            (\<forall>j < getShortestColumn grid.
               bottom (last (grid ! getShortestColumn grid)) < bottom (last (grid ! j)))"
    using getShortestColumn_spec(2,3)[OF ne]
    by (auto simp: shortestAmong_def lastBottom_def)
next
  assume "bottom a = 100 \<and> bottom b = 40 \<and> bottom c = 90"
  then show "getShortestColumn [as @ [a], bs @ [b], cs @ [c]] = 1"
    by (simp add: getShortestColumn_def lastItemOf_def)
next
  assume "bottom a = 100 \<and> bottom b = 40 \<and> bottom c = 90"
  then show "getShortestColumn [as @ [a], bs @ [b], cs @ [c], []] = 3"
    by (simp add: getShortestColumn_def lastItemOf_def)
qed

theorem getShortestColumn_correct_witness:
  "[[item_tb 0 100], [item_tb 0 40], [item_tb 0 90]] \<noteq> [] \<and>
   getShortestColumn [[item_tb 0 100], [item_tb 0 40], [item_tb 0 90]] = 1 \<and>
   bottom (item_tb 0 100) = 100 \<and> bottom (item_tb 0 40) = 40 \<and> bottom (item_tb 0 90) = 90 \<and>
   getShortestColumn [[item_tb 0 100], [item_tb 0 40], [item_tb 0 90], []] = 3"
  using getShortestColumn_correct [of "[[item_tb 0 100], [item_tb 0 40], [item_tb 0 90]]"
          "item_tb 0 100" "item_tb 0 40" "item_tb 0 90" "[]" "[]" "[]"]
  by (simp add: item_tb_def)

section \<open>The virtualization window\<close>

lemmas double_eval =
  fmul_def fadd_def fsub_def toDouble_def exponent_def roundHalfEven_def expUp.simps
  expDown.simps Let_def

lemma VIRTUAL_BUFFER_FACTOR_value:
  "VIRTUAL_BUFFER_FACTOR = 3152519739159347 / 4503599627370496"
  by (simp add: VIRTUAL_BUFFER_FACTOR_def double_eval)

lemma window_800_1000:
  assumes "containerHeight s = 800" and "scrollY d = Some 1000" and "containerOffset s = 0"
  shows "viewportTop (updateVirtualBounds d s) = 440"
    and "viewportBottom (updateVirtualBounds d s) = 2360"
proof -
  have buffer: "fmul 800 VIRTUAL_BUFFER_FACTOR = 560"
    by (simp add: VIRTUAL_BUFFER_FACTOR_value double_eval)
  have offset: "fsub 1000 0 = 1000" by (simp add: double_eval)
  have top: "fsub 1000 560 = 440" by (simp add: double_eval)
  have bot: "fadd (fadd 1000 800) 560 = 2360" by (simp add: double_eval)
  show "viewportTop (updateVirtualBounds d s) = 440"
    using assms by (simp add: updateVirtualBounds_def scrollPos_def buffer offset top)
  show "viewportBottom (updateVirtualBounds d s) = 2360"
    using assms by (simp add: updateVirtualBounds_def scrollPos_def buffer offset bot)
qed

text \<open>
  Claim C6. \<open>updateVirtualBounds\<close> sets \<open>viewportTop\<close> to the offset scroll position
  (scroll position minus container offset) minus the container height times 0.7, and
  \<open>viewportBottom\<close> to the offset scroll position plus the container height plus that
  buffer, each operation being the double operation of the source; an item is visible iff
  its bottom is at least \<open>viewportTop\<close> and its top at most \<open>viewportBottom\<close>. With
  container height 800, scroll offset 1000 and container offset 0 the window is
  [440, 2360]; an item spanning 2000 to 2100 is visible, one starting at 2400 is not.
\<close>

theorem viewport_window:
  "viewportTop (updateVirtualBounds d s)
     = fsub (fsub (scrollPos d) (containerOffset s))
            (fmul (containerHeight s) VIRTUAL_BUFFER_FACTOR) \<and>
   viewportBottom (updateVirtualBounds d s)
     = fadd (fadd (fsub (scrollPos d) (containerOffset s)) (containerHeight s))
            (fmul (containerHeight s) VIRTUAL_BUFFER_FACTOR) \<and>
   VIRTUAL_BUFFER_FACTOR = toDouble (7 / 10) \<and>
   (itemIsVisible s' item \<longleftrightarrow> bottom item \<ge> viewportTop s' \<and> top_y item \<le> viewportBottom s') \<and>
   (containerHeight s = 800 \<and> scrollY d = Some 1000 \<and> containerOffset s = 0 \<longrightarrow>
      viewportTop (updateVirtualBounds d s) = 440 \<and>
      viewportBottom (updateVirtualBounds d s) = 2360 \<and>
      (top_y item = 2000 \<and> bottom item = 2100 \<longrightarrow> itemIsVisible (updateVirtualBounds d s) item) \<and>
      (top_y item = 2400 \<longrightarrow> \<not> itemIsVisible (updateVirtualBounds d s) item))"
proof (intro conjI impI)
  show "viewportTop (updateVirtualBounds d s)
     = fsub (fsub (scrollPos d) (containerOffset s))
            (fmul (containerHeight s) VIRTUAL_BUFFER_FACTOR)"
    by (simp add: updateVirtualBounds_def Let_def)
  show "viewportBottom (updateVirtualBounds d s)
     = fadd (fadd (fsub (scrollPos d) (containerOffset s)) (containerHeight s))
            (fmul (containerHeight s) VIRTUAL_BUFFER_FACTOR)"
    by (simp add: updateVirtualBounds_def Let_def)
  show "VIRTUAL_BUFFER_FACTOR = toDouble (7 / 10)"
    by (simp add: VIRTUAL_BUFFER_FACTOR_def)
  show "itemIsVisible s' item \<longleftrightarrow> bottom item \<ge> viewportTop s' \<and> top_y item \<le> viewportBottom s'"
    by (auto simp: itemIsVisible_def)
next
  assume h: "containerHeight s = 800 \<and> scrollY d = Some 1000 \<and> containerOffset s = 0"
  then show "viewportTop (updateVirtualBounds d s) = 440"
    and "viewportBottom (updateVirtualBounds d s) = 2360"
    using window_800_1000[of s d] by simp_all
next
  assume h: "containerHeight s = 800 \<and> scrollY d = Some 1000 \<and> containerOffset s = 0"
    and i: "top_y item = 2000 \<and> bottom item = 2100"
  show "itemIsVisible (updateVirtualBounds d s) item"
    using h i window_800_1000[of s d] by (simp add: itemIsVisible_def)
next
  assume h: "containerHeight s = 800 \<and> scrollY d = Some 1000 \<and> containerOffset s = 0"
    and i: "top_y item = 2400"
  show "\<not> itemIsVisible (updateVirtualBounds d s) item"
    using h i window_800_1000[of s d] by (simp add: itemIsVisible_def)
qed

theorem viewport_window_witness:
  "containerHeight (mounted 3) = 800 \<and> scrollY dom0 = Some 1000 \<and>
   containerOffset (mounted 3) = 0 \<and>
   viewportTop (updateVirtualBounds dom0 (mounted 3)) = 440 \<and>
   viewportBottom (updateVirtualBounds dom0 (mounted 3)) = 2360 \<and>
   top_y (item_tb 2000 2100) = 2000 \<and> bottom (item_tb 2000 2100) = 2100 \<and>
   itemIsVisible (updateVirtualBounds dom0 (mounted 3)) (item_tb 2000 2100) \<and>
   top_y (item_tb 2400 2500) = 2400 \<and>
   \<not> itemIsVisible (updateVirtualBounds dom0 (mounted 3)) (item_tb 2400 2500)"
proof -
  have h: "containerHeight (mounted 3) = 800 \<and> scrollY dom0 = Some 1000 \<and>
           containerOffset (mounted 3) = 0"
    by (simp add: mounted_def dom0_def)
  have i1: "top_y (item_tb 2000 2100) = 2000 \<and> bottom (item_tb 2000 2100) = 2100"
    and i2: "top_y (item_tb 2400 2500) = 2400"
    by (simp_all add: item_tb_def)
  note w1 = viewport_window [of dom0 "mounted 3" "mounted 3" "item_tb 2000 2100",
      THEN conjunct2, THEN conjunct2, THEN conjunct2, THEN conjunct2, rule_format, OF h]
  note w2 = viewport_window [of dom0 "mounted 3" "mounted 3" "item_tb 2400 2500",
      THEN conjunct2, THEN conjunct2, THEN conjunct2, THEN conjunct2, rule_format, OF h]
  from w1 have "viewportTop (updateVirtualBounds dom0 (mounted 3)) = 440"
    and "viewportBottom (updateVirtualBounds dom0 (mounted 3)) = 2360"
    and "itemIsVisible (updateVirtualBounds dom0 (mounted 3)) (item_tb 2000 2100)"
    using i1 by simp_all
  moreover from w2 have "\<not> itemIsVisible (updateVirtualBounds dom0 (mounted 3)) (item_tb 2400 2500)"
    using i2 by simp
  ultimately show ?thesis using h i1 i2 by simp
qed

text \<open>
  The rounding shows at integer pixel values: with container height 650 and scroll
  position 569 the buffer is 454.99999999999994, \<open>viewportTop\<close> is 114.00000000000006,
  and an item whose bottom is 114 is not visible.
\<close>

lemma viewport_rounding:
  "viewportTop (updateVirtualBounds (dom0\<lparr>scrollY := Some 569\<rparr>) (mounted 3\<lparr>containerHeight := 650\<rparr>))
     = 2005509209063425 / 17592186044416 \<and>
   \<not> itemIsVisible (updateVirtualBounds (dom0\<lparr>scrollY := Some 569\<rparr>) (mounted 3\<lparr>containerHeight := 650\<rparr>))
       (item_tb 0 114)"
proof -
  have buffer: "fmul 650 VIRTUAL_BUFFER_FACTOR = 8004444650209279 / 17592186044416"
    by (simp add: VIRTUAL_BUFFER_FACTOR_value double_eval)
  have offset: "fsub 569 0 = 569" by (simp add: double_eval)
  have top: "fsub 569 (8004444650209279 / 17592186044416) = 2005509209063425 / 17592186044416"
    by (simp add: double_eval)
  have vt: "viewportTop (updateVirtualBounds (dom0\<lparr>scrollY := Some 569\<rparr>)
              (mounted 3\<lparr>containerHeight := 650\<rparr>)) = 2005509209063425 / 17592186044416"
    by (simp add: updateVirtualBounds_def scrollPos_def mounted_def dom0_def buffer offset top)
  show ?thesis unfolding vt by (simp add: itemIsVisible_def item_tb_def vt)
qed

section \<open>Distances\<close>

text \<open>
  Claim C7. For two items of the same column, \<open>calculateDistance\<close> is the later item's top
  minus the earlier item's bottom plus gutter, minus 1, whichever way round the two are
  passed. For A (top 0, height 40, bottom 50) and B (top 80, height 30, bottom 110) in
  column 0 with gutter 10 the distance is 19.
\<close>

theorem calculateDistance_same_column:
  "(column A = column B \<longrightarrow>
      calculateDistance p gutter A B =
        Some (if top_y A < top_y B then top_y B - (bottom A + gutter) - 1
              else top_y A - (bottom B + gutter) - 1)) \<and>
   (column A = column B \<and> top_y A < top_y B \<longrightarrow>
      calculateDistance p gutter A B = Some (top_y B - (bottom A + gutter) - 1) \<and>
      calculateDistance p gutter B A = Some (top_y B - (bottom A + gutter) - 1)) \<and>
   (column A = 0 \<and> top_y A = 0 \<and> height A = 40 \<and> bottom A = 50 \<and>
    column B = 0 \<and> top_y B = 80 \<and> height B = 30 \<and> bottom B = 110 \<longrightarrow>
      calculateDistance p 10 A B = Some 19 \<and> calculateDistance p 10 B A = Some 19)"
  by (auto simp: calculateDistance_def Let_def)

theorem calculateDistance_same_column_witness:
  "column itemA = column itemB \<and> top_y itemA < top_y itemB \<and>
   calculateDistance props0 10 itemA itemB = Some (80 - (50 + 10) - 1) \<and>
   calculateDistance props0 10 itemB itemA = Some 19"
  using calculateDistance_same_column [of itemA itemB props0 10]
  by (simp add: itemA_def itemB_def)

section \<open>The column count\<close>

text \<open>
  Claim C8. With a scroll container, an attached wrapper of parent width \<open>containerWidth\<close>
  and a non-zero unit width, \<open>calculateColumns\<close> returns the floor of the container width
  divided by column width plus gutter, raised to \<open>minCols\<close> when smaller. With minimum 3,
  column width 236, gutter 14 and container width 1000 the count is 4.
\<close>

theorem calculateColumns_count:
  "(hasScrollContainer d \<and> parentClientWidth d = Some containerWidth \<and>
    columnWidth p + gutter \<noteq> 0 \<longrightarrow>
      calculateColumns p gutter d
        = Inr (max \<lfloor>containerWidth / (columnWidth p + gutter)\<rfloor> (minCols p))) \<and>
   (hasScrollContainer d \<and> parentClientWidth d = Some 1000 \<and>
    minCols p = 3 \<and> columnWidth p = 236 \<longrightarrow> calculateColumns p 14 d = Inr 4)"
  by (auto simp: calculateColumns_def Let_def max_def)

theorem calculateColumns_count_witness:
  "hasScrollContainer dom0 \<and> parentClientWidth dom0 = Some 1000 \<and>
   columnWidth props0 + 14 \<noteq> 0 \<and> minCols props0 = 3 \<and> columnWidth props0 = 236 \<and>
   calculateColumns props0 14 dom0 = Inr 4"
  using calculateColumns_count [of dom0 1000 props0 14]
  by (simp add: dom0_def props0_def)

section \<open>Related items\<close>

text \<open>
  Claim C10. When \<open>colIdx\<close> is not the index of a column, or \<open>iIdx\<close> not the index of an
  item of that column, \<open>getItemsRelatedTo\<close> returns the empty list. The method only reads
  the component, which is why its model returns no new state.
\<close>

theorem getItemsRelatedTo_no_such_item:
  "length (gridItems s) \<le> colIdx \<or> length (gridItems s ! colIdx) \<le> iIdx
     \<Longrightarrow> getItemsRelatedTo p s colIdx iIdx noItems = Some []"
  by (auto simp: getItemsRelatedTo_def elemAt_def)


theorem getItemsRelatedTo_no_such_item_witness:
  "(length (gridItems (mounted 3\<lparr>gridItems := [[itemA, itemB]]\<rparr>)) \<le> 0 \<or>
    length (gridItems (mounted 3\<lparr>gridItems := [[itemA, itemB]]\<rparr>) ! 0) \<le> 2) \<and>
   getItemsRelatedTo props0 (mounted 3\<lparr>gridItems := [[itemA, itemB]]\<rparr>) 0 2 5 = Some [] \<and>
   getItemsRelatedTo props0 (mounted 3\<lparr>gridItems := [[itemA, itemB]]\<rparr>) 1 0 5 = Some []"
  using getItemsRelatedTo_no_such_item
          [of "mounted 3\<lparr>gridItems := [[itemA, itemB]]\<rparr>" 0 2 props0 5]
        getItemsRelatedTo_no_such_item
          [of "mounted 3\<lparr>gridItems := [[itemA, itemB]]\<rparr>" 1 0 props0 5]
  by simp

section \<open>The example grids\<close>

lemmas insertItems_eval =
  insertItems_def previousItemInColumn_def initColumns_def selectItems_def
  MAX_ITEMS_PER_INSERTION_def resolveServerRefSizes_def itemInfos_def newItemInfo_def
  itemKey_def parseInt10_def placeItem_def insertIntoColumn_def splice_in_def shiftItem_def
  getShortestColumn_def elemAt_def lastItemOf_def gridHeight_def gridMinHeight_def Let_def

lemmas example_defs =
  mounted_def measure100_def item100_def grid_a_def grid_ab_def grid_a_r1_b_def
  grid_a_r2_r1_b_def grid_ab_r_def grid2_ab_def grid2_a_rb_def

lemma feed_a: "insertItems measure100 (mounted 1) [''a'', ''b''] None None False = Inr grid_a"
  by (simp add: insertItems_eval example_defs)

lemma feed_b: "insertItems measure100 grid_a [''b''] None None False = Inr grid_ab"
  by (simp add: insertItems_eval example_defs)

lemma feed_ab_updateItems:
  "updateItems measure100 (mounted 1) [''a'', ''b''] = Inr grid_a \<and>
   updateItems measure100 grid_a [''a'', ''b''] = Inr grid_ab"
  using feed_a feed_b by (simp add: updateItems_def example_defs)

lemma related_r1:
  "insertItems measure100 grid_ab [''r1''] (Some 0) (Some 1) False = Inr grid_a_r1_b"
  by (simp add: insertItems_eval example_defs)

lemma related_r2:
  "insertItems measure100 grid_a_r1_b [''r2''] (Some 0) (Some 1) False = Inr grid_a_r2_r1_b"
  by (simp add: insertItems_eval example_defs)

lemma related_targets:
  "getItemsRelatedTo props0 grid_ab 0 0 1
     = Some [\<lparr>rel_columnIdx = 0, rel_itemIdx = 1, rel_count = 1\<rparr>] \<and>
   getItemsRelatedTo props0 grid_a_r1_b 0 0 1
     = Some [\<lparr>rel_columnIdx = 0, rel_itemIdx = 1, rel_count = 1\<rparr>]"
  by (simp add: getItemsRelatedTo_def candidates_def calculateDistance_def elemAt_def
        List.map_filter_def example_defs props0_def Let_def)

lemma related_r_beyond:
  "insertItems measure100 grid_ab [''r''] (Some 0) (Some 5) False = Inr grid_ab_r"
  by (simp add: insertItems_eval example_defs)

text \<open>The example grids are states the component reaches.\<close>

lemma reachable_grid_ab: "reachable measure100 props0 grid_ab"
  by (rule reachable.feed[OF reachable.feed[OF reachable.mount feed_a] feed_b])
     (simp add: mounted_def)

lemma reachable_grid_ab_r: "reachable measure100 props0 grid_ab_r"
  by (rule reachable.related[OF reachable_grid_ab related_r_beyond])

lemma reachedInRange_grid_ab: "reachedInRange measure100 props0 grid_ab"
  by (rule reachedInRange.feed[OF reachedInRange.feed[OF reachedInRange.mount feed_a] feed_b])
     (simp add: mounted_def)

lemma reachedInRange_grid_a_r1_b: "reachedInRange measure100 props0 grid_a_r1_b"
  by (rule reachedInRange.related[OF reachedInRange_grid_ab _ _ related_r1])
     (simp_all add: example_defs)

lemma reachedInRange_reachable:
  "reachedInRange measureItem p s \<Longrightarrow> reachable measureItem p s"
  by (induction rule: reachedInRange.induct) (auto intro: reachable.intros)

section \<open>Keys and the order of the feed\<close>

text \<open>
  Claim C1 (the code departs from it). Sorting all items by key should give back the order
  in which they stand, a related item receiving a key strictly between those of its
  neighbours. In the one-column grid holding \<open>a\<close> and \<open>b\<close>, item \<open>a\<close> asks twice for
  one related item; both are inserted at index 1. The second one, \<open>r2\<close>, gets the key
  1.004 and stands above \<open>r1\<close> with key 1.003: its key is not below its successor's, and
  sorting by key lists \<open>r1\<close> before \<open>r2\<close> while the column shows \<open>r2\<close> before \<open>r1\<close>.
\<close>

theorem fractional_key_disorder:
  "insertItems measure100 grid_ab [''r1''] (Some 0) (Some 1) False = Inr grid_a_r1_b \<and>
   insertItems measure100 grid_a_r1_b [''r2''] (Some 0) (Some 1) False = Inr grid_a_r2_r1_b \<and>
   map key (gridItems grid_a_r2_r1_b ! 0) = [1, 1004 / 1000, 1003 / 1000, 2] \<and>
   key (gridItems grid_a_r2_r1_b ! 0 ! 2) < key (gridItems grid_a_r2_r1_b ! 0 ! 1) \<and>
   map itemData (allItems grid_a_r2_r1_b) = [''a'', ''r2'', ''r1'', ''b''] \<and>
   map itemData (sort_key key (allItems grid_a_r2_r1_b)) = [''a'', ''r1'', ''r2'', ''b'']"
proof (intro conjI)
  show "insertItems measure100 grid_ab [''r1''] (Some 0) (Some 1) False = Inr grid_a_r1_b"
    by (simp add: insertItems_eval example_defs)
  show "insertItems measure100 grid_a_r1_b [''r2''] (Some 0) (Some 1) False = Inr grid_a_r2_r1_b"
    by (simp add: insertItems_eval example_defs)
qed (simp_all add: example_defs allItems_def)

text \<open>
  A reflow re-packs the items sorted by key, so the two related items change places.
\<close>

lemma reflow_reorders:
  "(case reflow measure100 dom0 grid_a_r2_r1_b of
      Inr s' \<Rightarrow> map (map itemData) (gridItems s')
    | Inl e \<Rightarrow> []) = [[''a'', ''r1'', ''r2'', ''b'']]"
  by (simp add: reflow_def setGridItems_def measureContainer_def allItems_def
        insertItems_eval example_defs dom0_def)

text \<open>
  The counter is reduced modulo 10000 but divided by 1000: once it has passed 1000, the
  added fraction exceeds 1, and a related item inserted between the keys 1 and 2 gets
  the key 2.001.
\<close>

lemma key_fraction_overflow:
  "(case insertItems measure100 (grid_ab\<lparr>itemKeyCounter := 1001\<rparr>) [''r''] (Some 0) (Some 1) False of
      Inr s' \<Rightarrow> map key (gridItems s' ! 0)
    | Inl e \<Rightarrow> []) = [1, 2001 / 1000, 2]"
  by (simp add: insertItems_eval example_defs)

section \<open>Packed columns\<close>

lemma packedFrom_append:
  "packedFrom g t (xs @ ys) \<longleftrightarrow> packedFrom g t xs \<and> packedFrom g (endOf t xs) ys"
  by (induction xs arbitrary: t) (auto simp: endOf_def)

lemma packedFrom_shift:
  "packedFrom g t xs \<Longrightarrow> packedFrom g (t + d) (map (shiftItem d) xs)"
  by (induction xs arbitrary: t) (auto simp: shiftItem_def)

lemma packedFrom_nth:
  "packedFrom g t xs \<Longrightarrow> i < length xs \<Longrightarrow>
     bottom (xs ! i) = top_y (xs ! i) + height (xs ! i) + g \<and>
     (Suc i < length xs \<longrightarrow> top_y (xs ! Suc i) = bottom (xs ! i))"
proof (induction xs arbitrary: t i)
  case Nil then show ?case by simp
next
  case (Cons x xs)
  show ?case
  proof (cases i)
    case 0
    then show ?thesis using Cons.prems by (cases xs) auto
  next
    case (Suc k)
    then show ?thesis using Cons.prems Cons.IH[of "bottom x" k] by auto
  qed
qed

lemma packedFrom_head_top:
  "packedFrom g t xs \<Longrightarrow> xs \<noteq> [] \<Longrightarrow> top_y (hd xs) = t"
  by (cases xs) auto

lemma insertIntoColumn_packed:
  assumes pk: "packedFrom g 0 col" and i: "i \<le> length col"
    and t: "top_y info = endOf 0 (take i col)"
    and b: "bottom info = top_y info + height info + g"
  shows "packedFrom g 0 (insertIntoColumn i info col)"
proof -
  from pk have parts: "packedFrom g 0 (take i col)" "packedFrom g (endOf 0 (take i col)) (drop i col)"
    using packedFrom_append[of g 0 "take i col" "drop i col"] by simp_all
  show ?thesis
  proof (cases "i = length col")
    case True
    then show ?thesis using pk t b
      by (simp add: insertIntoColumn_def splice_in_def packedFrom_append)
  next
    case False
    with i have lt: "i < length col" by simp
    then have ne: "drop i col \<noteq> []" by simp
    have hd: "top_y (col ! i) = endOf 0 (take i col)"
      using packedFrom_head_top[OF parts(2) ne] lt by (simp add: hd_drop_conv_nth)
    let ?col1 = "splice_in i info col"
    have n1: "?col1 ! i = info" using lt by (simp add: splice_in_def nth_append)
    have n2: "?col1 ! (i + 1) = col ! i" using lt by (simp add: splice_in_def nth_append)
    have tk: "take (i + 1) ?col1 = take i col @ [info]" using lt by (simp add: splice_in_def)
    have dr: "drop (i + 1) ?col1 = drop i col" using lt by (simp add: splice_in_def)
    have cond: "i < length ?col1 - 1" using lt by (simp add: splice_in_def)
    let ?off = "bottom info - top_y (col ! i)"
    have res: "insertIntoColumn i info col = (take i col @ [info]) @ map (shiftItem ?off) (drop i col)"
      using cond n1 n2 tk dr by (simp add: insertIntoColumn_def Let_def)
    have sh: "packedFrom g (endOf 0 (take i col) + ?off) (map (shiftItem ?off) (drop i col))"
      by (rule packedFrom_shift[OF parts(2)])
    have "packedFrom g 0 (take i col @ [info])"
      using parts(1) t b by (simp add: packedFrom_append)
    moreover have "endOf 0 (take i col @ [info]) = endOf 0 (take i col) + ?off"
      using hd by (simp add: endOf_def)
    ultimately show ?thesis unfolding res using sh
      by (simp only: packedFrom_append[of g 0 "take i col @ [info]"])
  qed
qed

lemma insertIntoColumn_packed_eq:
  assumes pk: "packedFrom g 0 col" and i: "i \<le> length col"
    and t: "top_y new = endOf 0 (take i col)"
    and b: "bottom new = top_y new + height new + g"
  shows "insertIntoColumn i new col
           = take i col @ [new] @ map (shiftItem (height new + g)) (drop i col)"
proof (cases "i = length col")
  case True
  then show ?thesis by (simp add: insertIntoColumn_def splice_in_def)
next
  case False
  with i have lt: "i < length col" by simp
  from pk have "packedFrom g (endOf 0 (take i col)) (drop i col)"
    using packedFrom_append[of g 0 "take i col" "drop i col"] by simp
  then have "top_y (col ! i) = endOf 0 (take i col)"
    using packedFrom_head_top[of g _ "drop i col"] lt by (simp add: hd_drop_conv_nth)
  then have off: "bottom new - top_y (col ! i) = height new + g" using t b by simp
  show ?thesis using lt off
    by (simp add: insertIntoColumn_def splice_in_def Let_def nth_append)
qed

lemma insertIntoColumn_shape:
  "i \<le> length col \<Longrightarrow>
     length (insertIntoColumn i info col) = Suc (length col) \<and>
     take i (insertIntoColumn i info col) = take i col \<and>
     insertIntoColumn i info col ! i = info"
  by (auto simp: insertIntoColumn_def splice_in_def Let_def nth_append min_def)

lemma insertIntoColumn_length:
  "length (insertIntoColumn i info col) = Suc (length col)"
  by (auto simp: insertIntoColumn_def splice_in_def Let_def)

lemma insertIntoColumn_column:
  "x \<in> set (insertIntoColumn i info col) \<Longrightarrow> column x = column info \<or> (\<exists>y \<in> set col. column x = column y)"
  by (auto simp: insertIntoColumn_def splice_in_def Let_def shiftItem_def
      dest!: in_set_takeD in_set_dropD split: if_splits)


section \<open>Placing items\<close>

lemma previousItemInColumn_bottom:
  assumes "c < length grid" and "i \<le> length (grid ! c)"
  shows "(case previousItemInColumn grid (Some c) (Some i) of Some p \<Rightarrow> bottom p | None \<Rightarrow> 0)
           = endOf 0 (take i (grid ! c))"
proof (cases "i = 0")
  case True
  then show ?thesis using assms by (simp add: previousItemInColumn_def elemAt_def endOf_def)
next
  case False
  then have "last (take i (grid ! c)) = grid ! c ! (i - 1)"
    using assms by (cases i) (simp_all add: take_Suc_conv_app_nth)
  moreover have "i - 1 < length (grid ! c)" "grid ! c \<noteq> []" using assms False by auto
  ultimately show ?thesis using assms False
    by (simp add: previousItemInColumn_def elemAt_def endOf_def)
qed

lemma placeItem_mid:
  assumes "c < length grid"
  shows "placeItem s (Some c) (Some i) prev grid info =
           Inr (grid[c := insertIntoColumn i
                  (info\<lparr>column := c, left := real c * itemWidth s,
                          top_y := (case prev of Some p \<Rightarrow> bottom p | None \<Rightarrow> 0),
                          bottom := (case prev of Some p \<Rightarrow> bottom p | None \<Rightarrow> 0)
                                      + height info + gutterWidth s\<rparr>)
                  (grid ! c)])"
  using assms by (simp add: placeItem_def elemAt_def Let_def)

lemma placeItem_no_column:
  assumes "length grid \<le> c"
  shows "placeItem s (Some c) (Some i) prev grid info = Inr grid"
  using assms by (simp add: placeItem_def elemAt_def)

lemma placeItem_append:
  assumes "\<not> (colIdx \<noteq> None \<and> itemIdx \<noteq> None)" and "grid \<noteq> []"
  shows "getShortestColumn grid < length grid \<and>
         placeItem s colIdx itemIdx prev grid info =
           Inr (grid[getShortestColumn grid := grid ! getShortestColumn grid @
                  [info\<lparr>column := getShortestColumn grid, appended := True,
                         left := real (getShortestColumn grid) * itemWidth s,
                         top_y := endOf 0 (grid ! getShortestColumn grid),
                         bottom := endOf 0 (grid ! getShortestColumn grid)
                                     + height info + gutterWidth s\<rparr>]])"
proof -
  have lt: "getShortestColumn grid < length grid"
    by (rule getShortestColumn_spec(1)[OF assms(2)])
  show ?thesis using assms(1) lt
    by (auto simp: placeItem_def elemAt_def Let_def lastItemOf_def endOf_def)
qed

lemma placeItem_append_no_column:
  assumes "\<not> (colIdx \<noteq> None \<and> itemIdx \<noteq> None)"
  shows "placeItem s colIdx itemIdx prev [] info = Inl TypeError"
  using assms by (auto simp: placeItem_def elemAt_def Let_def)

lemma endOf_take:
  "i \<le> length col \<Longrightarrow> endOf 0 (take i col) = (if i = 0 then 0 else bottom (col ! (i - 1)))"
  by (cases i) (auto simp: endOf_def take_Suc_conv_app_nth)

lemma selectItems_capped:
  assumes "serverRefs s = [] \<or> length (serverRefs s) \<le> insertedItemsCount s"
  shows "selectItems s (x # rest) False = [x]"
  using assms by (auto simp: selectItems_def MAX_ITEMS_PER_INSERTION_def)

lemma placeItems_no_column:
  "length grid \<le> c \<Longrightarrow> placeItems s (Some c) (Some i) prev grid infos = Inr grid"
  by (induction infos) (simp_all add: placeItem_no_column)

lemma insertItems_result:
  assumes "insertItems measureItem s newItems colIdx itemIdx forceUpdate = Inr s'"
  shows "\<exists>infos. placeItems s colIdx itemIdx
            (previousItemInColumn (if forceUpdate then [] else gridItems s) colIdx itemIdx)
            (initColumns (columnCount s) (if forceUpdate then [] else gridItems s)) infos
          = Inr (gridItems s') \<and>
         columnCount s' = columnCount s \<and> gutterWidth s' = gutterWidth s"
  using assms by (auto simp: insertItems_def Let_def split: sum.splits)

section \<open>Columns and their members\<close>

lemma columnsOk_update:
  assumes "columnsOk grid" and "\<forall>x \<in> set col. column x = c"
  shows "columnsOk (grid[c := col])"
proof (unfold columnsOk_def, intro allI impI ballI)
  fix ca x
  assume ca: "ca < length (grid[c := col])" and x: "x \<in> set (grid[c := col] ! ca)"
  show "column x = ca"
  proof (cases "ca = c")
    case True
    then show ?thesis using ca x assms(2) by simp
  next
    case False
    then show ?thesis using ca x assms(1) by (simp add: columnsOk_def)
  qed
qed

lemma packed_update:
  assumes "packed g grid" and "packedFrom g 0 col"
  shows "packed g (grid[c := col])"
  using assms by (auto simp: packed_def dest!: set_update_subset_insert[THEN subsetD])

lemma placeItem_columnsOk:
  assumes ok: "columnsOk grid" and r: "placeItem s colIdx itemIdx prev grid info = Inr grid'"
  shows "columnsOk grid' \<and> length grid' = length grid"
proof (cases "colIdx \<noteq> None \<and> itemIdx \<noteq> None")
  case True
  then obtain c i where ci: "colIdx = Some c" "itemIdx = Some i" by auto
  show ?thesis
  proof (cases "c < length grid")
    case False
    then show ?thesis using r ok ci by (simp add: placeItem_no_column)
  next
    case lt: True
    have old: "\<forall>y \<in> set (grid ! c). column y = c" using ok lt by (simp add: columnsOk_def)
    have "\<forall>x \<in> set (insertIntoColumn i
                  (info\<lparr>column := c, left := real c * itemWidth s,
                          top_y := (case prev of Some p \<Rightarrow> bottom p | None \<Rightarrow> 0),
                          bottom := (case prev of Some p \<Rightarrow> bottom p | None \<Rightarrow> 0)
                                      + height info + gutterWidth s\<rparr>)
                  (grid ! c)). column x = c"
      using old by (auto dest!: insertIntoColumn_column)
    then show ?thesis using r[unfolded ci placeItem_mid[OF lt]] ok
      by (auto intro: columnsOk_update)
  qed
next
  case False
  show ?thesis
  proof (cases "grid = []")
    case True
    then show ?thesis using r placeItem_append_no_column[OF False, of s prev info] by simp
  next
    case ne: False
    let ?c = "getShortestColumn grid"
    have lt: "?c < length grid" using placeItem_append[OF False ne] by simp
    have old: "\<forall>y \<in> set (grid ! ?c). column y = ?c" using ok lt by (simp add: columnsOk_def)
    show ?thesis using r placeItem_append[OF False ne, of s prev info] ok old
      by (auto intro!: columnsOk_update)
  qed
qed

lemma placeItems_columnsOk:
  "columnsOk grid \<Longrightarrow> placeItems s colIdx itemIdx prev grid infos = Inr grid'
     \<Longrightarrow> columnsOk grid' \<and> length grid' = length grid"
proof (induction infos arbitrary: grid)
  case Nil then show ?case by simp
next
  case (Cons info infos)
  then obtain g1 where g1: "placeItem s colIdx itemIdx prev grid info = Inr g1"
    and rest: "placeItems s colIdx itemIdx prev g1 infos = Inr grid'"
    by (auto split: sum.splits)
  from placeItem_columnsOk[OF Cons.prems(1) g1] Cons.IH[OF _ rest] show ?case by simp
qed

lemma columnsOk_initColumns:
  "grid = [] \<or> columnsOk grid \<Longrightarrow> columnsOk (initColumns n grid)"
  by (auto simp: initColumns_def columnsOk_def)

lemma columnsOk_disjoint:
  assumes "columnsOk grid" and "c < length grid" and "c' < length grid"
    and "x \<in> set (grid ! c)" and "x \<in> set (grid ! c')"
  shows "c = c'"
proof -
  have "column x = c" using assms(1,2,4) by (simp add: columnsOk_def)
  moreover have "column x = c'" using assms(1,3,5) by (simp add: columnsOk_def)
  ultimately show ?thesis by simp
qed

lemma placeItems_mid_other_columns:
  "placeItems s (Some c) (Some i) prev grid infos = Inr grid' \<Longrightarrow> c' \<noteq> c
     \<Longrightarrow> grid' ! c' = grid ! c'"
proof (induction infos arbitrary: grid)
  case Nil then show ?case by simp
next
  case (Cons info infos)
  then obtain g1 where g1: "placeItem s (Some c) (Some i) prev grid info = Inr g1"
    and rest: "placeItems s (Some c) (Some i) prev g1 infos = Inr grid'"
    by (auto split: sum.splits)
  have "g1 ! c' = grid ! c'"
  proof (cases "c < length grid")
    case True
    then show ?thesis using g1 Cons.prems(2) by (auto simp: placeItem_mid)
  next
    case False
    then show ?thesis using g1 by (simp add: placeItem_no_column)
  qed
  then show ?case using Cons.IH[OF rest Cons.prems(2)] by simp
qed

lemma insertItems_columnsOk:
  assumes inv: "gridItems s = [] \<or>
                (length (gridItems s) = nat (columnCount s) \<and> columnsOk (gridItems s))"
    and r: "insertItems measureItem s newItems colIdx itemIdx forceUpdate = Inr s'"
  shows "length (gridItems s') = nat (columnCount s') \<and> columnsOk (gridItems s')"
proof -
  let ?g0 = "if forceUpdate then [] else gridItems s"
  let ?g1 = "initColumns (columnCount s) ?g0"
  from insertItems_result[OF r] obtain infos where
    pl: "placeItems s colIdx itemIdx (previousItemInColumn ?g0 colIdx itemIdx) ?g1 infos
           = Inr (gridItems s')"
    and cc: "columnCount s' = columnCount s"
    by auto
  have ok1: "columnsOk ?g1" using inv by (auto intro: columnsOk_initColumns)
  have len1: "length ?g1 = nat (columnCount s)" using inv by (auto simp: initColumns_def)
  from placeItems_columnsOk[OF ok1 pl] len1 cc show ?thesis by simp
qed

lemma setGridItems_columnsOk:
  "setGridItems measureItem s items = Inr s'
     \<Longrightarrow> length (gridItems s') = nat (columnCount s') \<and> columnsOk (gridItems s')"
proof -
  assume r: "setGridItems measureItem s items = Inr s'"
  let ?s1 = "s\<lparr>insertedItemsCount := 0, serverRefSizes := Some []\<rparr>"
  let ?g0 = "if True then [] else gridItems ?s1"
  let ?g1 = "initColumns (columnCount ?s1) ?g0"
  from insertItems_result[OF r[unfolded setGridItems_def]] obtain infos where
    pl: "placeItems ?s1 None None (previousItemInColumn ?g0 None None) ?g1 infos
           = Inr (gridItems s')"
    and cc: "columnCount s' = columnCount ?s1"
    by auto
  have ok1: "columnsOk ?g1" by (auto intro: columnsOk_initColumns)
  have len1: "length ?g1 = nat (columnCount ?s1)" by (simp add: initColumns_def)
  from placeItems_columnsOk[OF ok1 pl] len1 cc show ?thesis by simp
qed

text \<open>Every state the component reaches has no column yet or \<open>columnCount\<close> well-formed ones.\<close>

lemma reachable_columns:
  "reachable measureItem p s \<Longrightarrow>
     gridItems s = [] \<or> (length (gridItems s) = nat (columnCount s) \<and> columnsOk (gridItems s))"
proof (induction rule: reachable.induct)
  case (mount s)
  then show ?case by simp
next
  case (feed s newItems s')
  then show ?case using insertItems_columnsOk by blast
next
  case (related s newItems c i s')
  then show ?case using insertItems_columnsOk by blast
next
  case (rebuild s items s')
  then show ?case using setGridItems_columnsOk by blast
next
  case (resize s d s')
  then show ?case
    by (auto simp: handleResize_def reflow_def Let_def
        split: option.splits sum.splits if_splits dest: setGridItems_columnsOk)
next
  case (scroll s d)
  then show ?case by (simp add: updateVirtualBounds_def Let_def)
qed

text \<open>
  Claim C9. Let the grid have no column yet, or \<open>columnCount\<close> columns whose items carry
  the index of their column (every reachable state is so). After any \<open>insertItems\<close> call
  that returns (append, insertion at any target, forced rebuild) the grid has exactly
  \<open>columnCount\<close> columns, every item's \<open>column\<close> field is the index of the column that
  holds it, so no item is in two columns, and an insertion into column \<open>c\<close> of a non-empty
  grid leaves every other column as it was: shifting moves nothing across columns.
\<close>

theorem insertItems_columns:
  assumes inv: "gridItems s = [] \<or>
                (length (gridItems s) = nat (columnCount s) \<and> columnsOk (gridItems s))"
    and r: "insertItems measureItem s newItems colIdx itemIdx forceUpdate = Inr s'"
  shows "length (gridItems s') = nat (columnCount s') \<and>
         (\<forall>c < length (gridItems s'). \<forall>x \<in> set (gridItems s' ! c). column x = c) \<and>
         (\<forall>c c' x. c < length (gridItems s') \<and> c' < length (gridItems s') \<and>
             x \<in> set (gridItems s' ! c) \<and> x \<in> set (gridItems s' ! c') \<longrightarrow> c = c') \<and>
         (\<forall>c i c'. colIdx = Some c \<and> itemIdx = Some i \<and> \<not> forceUpdate \<and>
             gridItems s \<noteq> [] \<and> c' \<noteq> c \<longrightarrow> gridItems s' ! c' = gridItems s ! c')"
proof -
  let ?g0 = "if forceUpdate then [] else gridItems s"
  let ?g1 = "initColumns (columnCount s) ?g0"
  from insertItems_result[OF r] obtain infos where
    pl: "placeItems s colIdx itemIdx (previousItemInColumn ?g0 colIdx itemIdx) ?g1 infos
           = Inr (gridItems s')"
    by auto
  from insertItems_columnsOk[OF inv r] have ok: "columnsOk (gridItems s')"
    and len: "length (gridItems s') = nat (columnCount s')" by simp_all
  have other: "gridItems s' ! c' = gridItems s ! c'"
    if "colIdx = Some c" "itemIdx = Some i" "\<not> forceUpdate" "gridItems s \<noteq> []" "c' \<noteq> c"
    for c i c'
    using placeItems_mid_other_columns[OF pl[unfolded that(1,2)] that(5)] that(3,4)
    by (simp add: initColumns_def)
  show ?thesis
    using ok len other columnsOk_disjoint[OF ok]
    by (auto simp: columnsOk_def)
qed

lemma related_r_2col:
  "insertItems measure100 grid2_ab [''r''] (Some 1) (Some 0) False = Inr grid2_a_rb"
  by (simp add: insertItems_eval example_defs)

lemma columnsOk_grid2_ab: "columnsOk (gridItems grid2_ab)"
  unfolding columnsOk_def by (simp add: example_defs All_less_Suc)

theorem insertItems_columns_witness:
  "(gridItems grid2_ab = [] \<or>
      (length (gridItems grid2_ab) = nat (columnCount grid2_ab) \<and> columnsOk (gridItems grid2_ab))) \<and>
   insertItems measure100 grid2_ab [''r''] (Some 1) (Some 0) False = Inr grid2_a_rb \<and>
   length (gridItems grid2_a_rb) = nat (columnCount grid2_a_rb) \<and>
   column (gridItems grid2_a_rb ! 1 ! 0) = 1 \<and>
   column (gridItems grid2_a_rb ! 1 ! 1) = 1 \<and>
   gridItems grid2_a_rb ! 0 = gridItems grid2_ab ! 0"
proof -
  have inv: "gridItems grid2_ab = [] \<or>
      (length (gridItems grid2_ab) = nat (columnCount grid2_ab) \<and> columnsOk (gridItems grid2_ab))"
    using columnsOk_grid2_ab by (simp add: example_defs)
  note th = insertItems_columns [OF inv related_r_2col]
  have len: "length (gridItems grid2_a_rb) = nat (columnCount grid2_a_rb)"
    by (rule th[THEN conjunct1])
  have mem: "gridItems grid2_a_rb ! 1 ! 0 \<in> set (gridItems grid2_a_rb ! 1)"
    "gridItems grid2_a_rb ! 1 ! 1 \<in> set (gridItems grid2_a_rb ! 1)"
    and lt: "1 < length (gridItems grid2_a_rb)"
    by (simp_all add: example_defs)
  note colfield = th[THEN conjunct2, THEN conjunct1, rule_format, OF lt]
  have cols: "column (gridItems grid2_a_rb ! 1 ! 0) = 1" "column (gridItems grid2_a_rb ! 1 ! 1) = 1"
    by (rule colfield[OF mem(1)], rule colfield[OF mem(2)])
  have ne: "gridItems grid2_ab \<noteq> []" by (simp add: example_defs)
  have other: "gridItems grid2_a_rb ! 0 = gridItems grid2_ab ! 0"
    using th[THEN conjunct2, THEN conjunct2, THEN conjunct2, rule_format, of 1 0 0] ne
    by simp
  show ?thesis using inv related_r_2col len cols other by simp
qed

section \<open>No overlap\<close>

lemma placeItem_append_packed:
  assumes pk: "packed (gutterWidth s) grid" and app: "\<not> (colIdx \<noteq> None \<and> itemIdx \<noteq> None)"
    and r: "placeItem s colIdx itemIdx prev grid info = Inr grid'"
  shows "packed (gutterWidth s) grid'"
proof (cases "grid = []")
  case True
  then show ?thesis using r placeItem_append_no_column[OF app, of s prev info] by simp
next
  case ne: False
  let ?c = "getShortestColumn grid"
  have lt: "?c < length grid" using placeItem_append[OF app ne] by simp
  have col: "packedFrom (gutterWidth s) 0 (grid ! ?c)" using pk lt by (simp add: packed_def)
  have "packedFrom (gutterWidth s) 0 (grid ! ?c @
          [info\<lparr>column := ?c, appended := True, left := real ?c * itemWidth s,
                 top_y := endOf 0 (grid ! ?c),
                 bottom := endOf 0 (grid ! ?c) + height info + gutterWidth s\<rparr>])"
    using col by (simp add: packedFrom_append)
  then show ?thesis using r placeItem_append[OF app ne, of s prev info] pk
    by (auto intro: packed_update)
qed

lemma placeItems_append_packed:
  "packed (gutterWidth s) grid \<Longrightarrow> \<not> (colIdx \<noteq> None \<and> itemIdx \<noteq> None) \<Longrightarrow>
   placeItems s colIdx itemIdx prev grid infos = Inr grid' \<Longrightarrow> packed (gutterWidth s) grid'"
proof (induction infos arbitrary: grid)
  case Nil then show ?case by simp
next
  case (Cons info infos)
  then obtain g1 where g1: "placeItem s colIdx itemIdx prev grid info = Inr g1"
    and rest: "placeItems s colIdx itemIdx prev g1 infos = Inr grid'"
    by (auto split: sum.splits)
  from placeItem_append_packed[OF Cons.prems(1,2) g1] Cons.IH[OF _ Cons.prems(2) rest]
  show ?case by simp
qed

lemma placeItems_mid_packed:
  assumes "packed (gutterWidth s) grid" and "c < length grid" and "i \<le> length (grid ! c)"
    and "(case prev of Some p \<Rightarrow> bottom p | None \<Rightarrow> 0) = endOf 0 (take i (grid ! c))"
  shows "\<exists>grid'. placeItems s (Some c) (Some i) prev grid infos = Inr grid' \<and>
           packed (gutterWidth s) grid'"
  using assms
proof (induction infos arbitrary: grid)
  case Nil then show ?case by simp
next
  case (Cons info infos)
  let ?t = "case prev of Some p \<Rightarrow> bottom p | None \<Rightarrow> 0"
  let ?new = "info\<lparr>column := c, left := real c * itemWidth s, top_y := ?t,
                    bottom := ?t + height info + gutterWidth s\<rparr>"
  let ?col = "insertIntoColumn i ?new (grid ! c)"
  let ?g1 = "grid[c := ?col]"
  have step: "placeItem s (Some c) (Some i) prev grid info = Inr ?g1"
    by (rule placeItem_mid[OF Cons.prems(2)])
  have colpk: "packedFrom (gutterWidth s) 0 (grid ! c)"
    using Cons.prems(1,2) by (simp add: packed_def)
  have "packedFrom (gutterWidth s) 0 ?col"
    by (rule insertIntoColumn_packed[OF colpk Cons.prems(3)]) (use Cons.prems(4) in simp_all)
  then have pk1: "packed (gutterWidth s) ?g1" by (rule packed_update[OF Cons.prems(1)])
  have shape: "length ?col = Suc (length (grid ! c))" "take i ?col = take i (grid ! c)"
    using insertIntoColumn_shape[OF Cons.prems(3), of ?new] by simp_all
  have "\<exists>grid'. placeItems s (Some c) (Some i) prev ?g1 infos = Inr grid' \<and>
           packed (gutterWidth s) grid'"
    by (rule Cons.IH[OF pk1]) (use Cons.prems shape in simp_all)
  then show ?case using step by simp
qed

lemma packed_initColumns: "packed g grid \<Longrightarrow> packed g (initColumns n grid)"
  by (simp add: packed_def initColumns_def)

lemma insertItems_append_packed:
  assumes "forceUpdate \<or> packed (gutterWidth s) (gridItems s)"
    and "\<not> (colIdx \<noteq> None \<and> itemIdx \<noteq> None)"
    and "insertItems measureItem s newItems colIdx itemIdx forceUpdate = Inr s'"
  shows "packed (gutterWidth s') (gridItems s')"
proof -
  let ?g0 = "if forceUpdate then [] else gridItems s"
  have "packed (gutterWidth s) ?g0" using assms(1) by (auto simp: packed_def)
  then have "packed (gutterWidth s) (initColumns (columnCount s) ?g0)"
    by (rule packed_initColumns)
  then show ?thesis using insertItems_result[OF assms(3)] assms(2)
    by (auto dest: placeItems_append_packed)
qed

lemma insertItems_mid_packed:
  assumes pk: "packed (gutterWidth s) (gridItems s)"
    and c: "c < length (gridItems s)" and i: "i \<le> length (gridItems s ! c)"
    and r: "insertItems measureItem s newItems (Some c) (Some i) False = Inr s'"
  shows "packed (gutterWidth s') (gridItems s')"
proof -
  have ne: "gridItems s \<noteq> []" using c by auto
  have init: "initColumns (columnCount s) (gridItems s) = gridItems s"
    using ne by (simp add: initColumns_def)
  from insertItems_result[OF r] obtain infos where
    pl: "placeItems s (Some c) (Some i) (previousItemInColumn (gridItems s) (Some c) (Some i))
           (gridItems s) infos = Inr (gridItems s')"
    and g: "gutterWidth s' = gutterWidth s"
    by (auto simp: init)
  from placeItems_mid_packed[OF pk c i previousItemInColumn_bottom[OF c i], of infos] pl g
  show ?thesis by simp
qed

lemma setGridItems_packed:
  "setGridItems measureItem s items = Inr s' \<Longrightarrow> packed (gutterWidth s') (gridItems s')"
  unfolding setGridItems_def
  by (rule insertItems_append_packed[where forceUpdate = True]) auto

lemma handleResize_packed:
  assumes "packed (gutterWidth s) (gridItems s)"
    and "handleResize measureItem p d s = Inr s'"
  shows "packed (gutterWidth s') (gridItems s')"
  using assms
  by (auto simp: handleResize_def reflow_def Let_def
      split: option.splits sum.splits if_splits dest: setGridItems_packed)

lemma reachedInRange_packed:
  "reachedInRange measureItem p s \<Longrightarrow> packed (gutterWidth s) (gridItems s)"
proof (induction rule: reachedInRange.induct)
  case (mount s)
  then show ?case by (simp add: packed_def)
next
  case (feed s newItems s')
  then show ?case by (auto intro: insertItems_append_packed)
next
  case (related s c i newItems s')
  then show ?case by (auto intro: insertItems_mid_packed)
next
  case (rebuild s items s')
  then show ?case by (auto intro: setGridItems_packed)
next
  case (resize s d s')
  then show ?case by (auto intro: handleResize_packed)
next
  case (scroll s d)
  then show ?case by (simp add: updateVirtualBounds_def Let_def)
qed

text \<open>
  Claim C2, as amended. In every state the component reaches through appends to the
  shortest column, rebuilds, reflows and targeted insertions whose target column exists and
  whose target index is at most the length of that column, for every column and every two
  adjacent items the upper one's \<open>bottom\<close> is at most the lower one's \<open>top\<close>, and every
  item's \<open>bottom\<close> is its \<open>top\<close> plus its \<open>height\<close> plus the gutter width.
\<close>

theorem no_overlap_invariant:
  assumes "reachedInRange measureItem p s"
  shows "\<forall>col \<in> set (gridItems s). \<forall>i.
           (i + 1 < length col \<longrightarrow> bottom (col ! i) \<le> top_y (col ! (i + 1))) \<and>
           (i < length col \<longrightarrow> bottom (col ! i) = top_y (col ! i) + height (col ! i) + gutterWidth s)"
proof (intro ballI allI)
  fix col i
  assume "col \<in> set (gridItems s)"
  then have pk: "packedFrom (gutterWidth s) 0 col"
    using reachedInRange_packed[OF assms] by (simp add: packed_def)
  show "(i + 1 < length col \<longrightarrow> bottom (col ! i) \<le> top_y (col ! (i + 1))) \<and>
        (i < length col \<longrightarrow> bottom (col ! i) = top_y (col ! i) + height (col ! i) + gutterWidth s)"
    using packedFrom_nth[OF pk, of i] by auto
qed

theorem no_overlap_invariant_witness:
  "reachedInRange measure100 props0 grid_a_r1_b \<and>
   bottom (gridItems grid_a_r1_b ! 0 ! 0) \<le> top_y (gridItems grid_a_r1_b ! 0 ! 1) \<and>
   bottom (gridItems grid_a_r1_b ! 0 ! 1) \<le> top_y (gridItems grid_a_r1_b ! 0 ! 2) \<and>
   bottom (gridItems grid_a_r1_b ! 0 ! 2)
     = top_y (gridItems grid_a_r1_b ! 0 ! 2) + height (gridItems grid_a_r1_b ! 0 ! 2)
       + gutterWidth grid_a_r1_b"
proof -
  have col: "gridItems grid_a_r1_b ! 0 \<in> set (gridItems grid_a_r1_b)"
    and len: "length (gridItems grid_a_r1_b ! 0) = 3"
    by (simp_all add: example_defs)
  have h: "(i + 1 < length (gridItems grid_a_r1_b ! 0) \<longrightarrow>
              bottom (gridItems grid_a_r1_b ! 0 ! i) \<le> top_y (gridItems grid_a_r1_b ! 0 ! (i + 1))) \<and>
           (i < length (gridItems grid_a_r1_b ! 0) \<longrightarrow>
              bottom (gridItems grid_a_r1_b ! 0 ! i)
                = top_y (gridItems grid_a_r1_b ! 0 ! i) + height (gridItems grid_a_r1_b ! 0 ! i)
                  + gutterWidth grid_a_r1_b)" for i
    using no_overlap_invariant [OF reachedInRange_grid_a_r1_b] col by blast
  show ?thesis using h[of 0] h[of 1] h[of 2] len reachedInRange_grid_a_r1_b
    by (simp add: eval_nat_numeral)
qed

text \<open>
  Claim C2 as stated fails: \<open>insertItems\<close> does not check the target index. From the
  reachable grid holding \<open>a\<close> and \<open>b\<close> in column 0, the insertion at index 5 completes
  and appends \<open>r\<close> with top 0 below \<open>b\<close>, whose bottom is 228.
\<close>

theorem no_overlap_counterexample:
  "reachable measure100 props0 grid_ab_r \<and>
   1 + 1 < length (gridItems grid_ab_r ! 0) \<and>
   \<not> bottom (gridItems grid_ab_r ! 0 ! 1) \<le> top_y (gridItems grid_ab_r ! 0 ! (1 + 1))"
  using reachable_grid_ab_r by (simp add: example_defs)

section \<open>Inserting at a target\<close>

text \<open>
  What a targeted call does with the one item it places when no server-rendered sizes are
  pending, the target column is packed and the index is in range: the item stands at the
  target index, starts where its predecessor ends, and everything from the target index on
  moves down by the new item's height plus the gutter.
\<close>

lemma insertItems_single_placement_eq:
  assumes c: "c < length (gridItems s)" and i: "i \<le> length (gridItems s ! c)"
    and pk: "packedFrom (gutterWidth s) 0 (gridItems s ! c)"
    and cap: "serverRefs s = [] \<or> length (serverRefs s) \<le> insertedItemsCount s"
  shows "\<exists>s' new. insertItems measureItem s (x # rest) (Some c) (Some i) False = Inr s' \<and>
           gridItems s' = (gridItems s)
             [c := take i (gridItems s ! c) @ [new] @
                   map (shiftItem (height new + gutterWidth s)) (drop i (gridItems s ! c))] \<and>
           itemData new = x \<and> column new = c \<and>
           top_y new = (if i = 0 then 0 else bottom (gridItems s ! c ! (i - 1))) \<and>
           bottom new = top_y new + height new + gutterWidth s"
proof -
  let ?grid = "gridItems s"
  let ?prev = "previousItemInColumn ?grid (Some c) (Some i)"
  let ?t = "case ?prev of Some p \<Rightarrow> bottom p | None \<Rightarrow> 0"
  let ?info = "newItemInfo measureItem s (resolveServerRefSizes s) (Some c) (Some i) ?prev
                 ((if itemKeyCounter s = 0 then 1 else itemKeyCounter s) + 0) 0 x"
  let ?new = "?info\<lparr>column := c, left := real c * itemWidth s, top_y := ?t,
                     bottom := ?t + height ?info + gutterWidth s\<rparr>"
  have ne: "?grid \<noteq> []" using c by auto
  have t: "?t = endOf 0 (take i (?grid ! c))" by (rule previousItemInColumn_bottom[OF c i])
  have col: "insertIntoColumn i ?new (?grid ! c)
      = take i (?grid ! c) @ [?new] @
        map (shiftItem (height ?new + gutterWidth s)) (drop i (?grid ! c))"
    by (rule insertIntoColumn_packed_eq[OF pk i]) (simp_all add: t)
  have infos: "itemInfos measureItem s (resolveServerRefSizes s) (Some c) (Some i) ?prev
                 (if itemKeyCounter s = 0 then 1 else itemKeyCounter s) [x] = [?info]"
    by (simp add: itemInfos_def)
  have run: "\<exists>s'. insertItems measureItem s (x # rest) (Some c) (Some i) False = Inr s' \<and>
               gridItems s' = ?grid[c := insertIntoColumn i ?new (?grid ! c)]"
    using ne infos placeItem_mid[OF c, of s i ?prev ?info]
    by (simp add: insertItems_def Let_def initColumns_def selectItems_capped[OF cap])
  have fields: "itemData ?new = x" "column ?new = c"
    "top_y ?new = (if i = 0 then 0 else bottom (?grid ! c ! (i - 1)))"
    "bottom ?new = top_y ?new + height ?new + gutterWidth s"
    using t endOf_take[OF i] by (simp_all add: newItemInfo_def Let_def)
  from run obtain s' where
    s': "insertItems measureItem s (x # rest) (Some c) (Some i) False = Inr s'"
        "gridItems s' = ?grid[c := insertIntoColumn i ?new (?grid ! c)]"
    by blast
  show ?thesis
    by (rule exI[of _ s'], rule exI[of _ ?new]) (use s' col fields in simp)
qed

lemma insertItems_single_placement:
  assumes c: "c < length (gridItems s)" and i: "i \<le> length (gridItems s ! c)"
    and pk: "packedFrom (gutterWidth s) 0 (gridItems s ! c)"
    and cap: "serverRefs s = [] \<or> length (serverRefs s) \<le> insertedItemsCount s"
  shows "\<exists>s'. insertItems measureItem s (x # rest) (Some c) (Some i) False = Inr s' \<and>
           length (gridItems s') = length (gridItems s) \<and>
           (\<forall>c'. c' \<noteq> c \<longrightarrow> gridItems s' ! c' = gridItems s ! c') \<and>
           length (gridItems s' ! c) = Suc (length (gridItems s ! c)) \<and>
           take i (gridItems s' ! c) = take i (gridItems s ! c) \<and>
           itemData (gridItems s' ! c ! i) = x \<and> column (gridItems s' ! c ! i) = c \<and>
           top_y (gridItems s' ! c ! i) = (if i = 0 then 0 else bottom (gridItems s ! c ! (i - 1))) \<and>
           bottom (gridItems s' ! c ! i)
             = top_y (gridItems s' ! c ! i) + height (gridItems s' ! c ! i) + gutterWidth s \<and>
           (\<forall>j. i \<le> j \<and> j < length (gridItems s ! c) \<longrightarrow>
              itemData (gridItems s' ! c ! Suc j) = itemData (gridItems s ! c ! j) \<and>
              top_y (gridItems s' ! c ! Suc j)
                = top_y (gridItems s ! c ! j) + (height (gridItems s' ! c ! i) + gutterWidth s) \<and>
              bottom (gridItems s' ! c ! Suc j)
                = bottom (gridItems s ! c ! j) + (height (gridItems s' ! c ! i) + gutterWidth s))"
proof -
  let ?col = "gridItems s ! c"
  from insertItems_single_placement_eq[OF c i pk cap, of measureItem x rest]
  obtain s' new where run: "insertItems measureItem s (x # rest) (Some c) (Some i) False = Inr s'"
    and grid: "gridItems s' = (gridItems s)
             [c := take i ?col @ [new] @ map (shiftItem (height new + gutterWidth s)) (drop i ?col)]"
    and new: "itemData new = x" "column new = c"
      "top_y new = (if i = 0 then 0 else bottom (?col ! (i - 1)))"
      "bottom new = top_y new + height new + gutterWidth s"
    by blast
  let ?d = "height new + gutterWidth s"
  have col': "gridItems s' ! c = take i ?col @ [new] @ map (shiftItem ?d) (drop i ?col)"
    using c by (simp add: grid)
  have at_i: "gridItems s' ! c ! i = new" using i by (simp add: col' nth_append)
  have below: "gridItems s' ! c ! Suc j = shiftItem ?d (?col ! j)"
    if "i \<le> j" "j < length ?col" for j
    using that i by (simp add: col' nth_append Suc_diff_le)
  have others: "gridItems s' ! c' = gridItems s ! c'" if "c' \<noteq> c" for c'
    using that by (simp add: grid)
  show ?thesis
  proof (rule exI[of _ s'], intro conjI allI impI)
    show "insertItems measureItem s (x # rest) (Some c) (Some i) False = Inr s'" by (rule run)
    show "length (gridItems s') = length (gridItems s)" by (simp add: grid)
    show "length (gridItems s' ! c) = Suc (length ?col)" using i by (simp add: col')
    show "take i (gridItems s' ! c) = take i ?col" using i by (simp add: col')
  qed (use others at_i new below in \<open>simp_all add: shiftItem_def\<close>)
qed

text \<open>
  Claim C3 (the code departs from it). A batch of \<open>k\<close> items should end up at the
  successive indices from the target index on. In the grid holding \<open>a\<close>, \<open>r1\<close>, \<open>b\<close>,
  item \<open>a\<close> asks for two related items: \<open>getItemsRelatedTo\<close> resolves both to column 0,
  index 1, so \<open>handleAddRelatedItems\<close> passes the batch \<open>r2\<close>, \<open>r3\<close> to one
  \<open>insertItems\<close> call. The call keeps the first item only: \<open>r2\<close> is placed at index 1,
  and \<open>r3\<close>, the item \<open>j = 1\<close> of the batch, is not at index \<open>1 + 1\<close> (which holds
  \<open>r1\<close>) nor anywhere else in the grid.
\<close>

theorem related_batch_truncated:
  "getItemsRelatedTo props0 grid_a_r1_b 0 0 2
     = Some [\<lparr>rel_columnIdx = 0, rel_itemIdx = 1, rel_count = 2\<rparr>] \<and>
   handleAddRelatedItems measure100 props0 grid_a_r1_b 0 0 [''r2'', ''r3''] = Inr grid_a_r2_r1_b \<and>
   insertItems measure100 grid_a_r1_b [''r2'', ''r3''] (Some 0) (Some 1) False
     = Inr grid_a_r2_r1_b \<and>
   map itemData (gridItems grid_a_r2_r1_b ! 0) = [''a'', ''r2'', ''r1'', ''b''] \<and>
   itemData (gridItems grid_a_r2_r1_b ! 0 ! (1 + 1)) \<noteq> ''r3'' \<and>
   ''r3'' \<notin> set (map itemData (allItems grid_a_r2_r1_b))"
proof -
  have rel: "getItemsRelatedTo props0 grid_a_r1_b 0 0 2
     = Some [\<lparr>rel_columnIdx = 0, rel_itemIdx = 1, rel_count = 2\<rparr>]"
    by (simp add: getItemsRelatedTo_def candidates_def calculateDistance_def elemAt_def
          List.map_filter_def example_defs props0_def Let_def)
  have ins: "insertItems measure100 grid_a_r1_b [''r2'', ''r3''] (Some 0) (Some 1) False
     = Inr grid_a_r2_r1_b"
    by (simp add: insertItems_eval example_defs)
  have col: "elemAt (gridItems grid_a_r1_b) 0 \<noteq> None" by (simp add: elemAt_def example_defs)
  have rel': "getItemsRelatedTo props0 grid_a_r1_b 0 0 (Suc (Suc 0))
     = Some [\<lparr>rel_columnIdx = 0, rel_itemIdx = 1, rel_count = Suc (Suc 0)\<rparr>]"
    using rel by (simp add: numeral_2_eq_2)
  have handle: "handleAddRelatedItems measure100 props0 grid_a_r1_b 0 0 [''r2'', ''r3'']
          = Inr grid_a_r2_r1_b"
    using col ins by (auto simp: handleAddRelatedItems_def rel')
  have rest: "map itemData (gridItems grid_a_r2_r1_b ! 0) = [''a'', ''r2'', ''r1'', ''b'']"
    "itemData (gridItems grid_a_r2_r1_b ! 0 ! (1 + 1)) \<noteq> ''r3''"
    "''r3'' \<notin> set (map itemData (allItems grid_a_r2_r1_b))"
    by (simp_all add: example_defs allItems_def)
  show ?thesis using rel handle ins rest by (intro conjI)
qed

text \<open>
  The feed does not lose the items beyond the cap: the next call places the next one
  (\<open>feed_ab_updateItems\<close>). On the path that lets a whole batch through (server-rendered
  sizes pending), every item of the batch is spliced at the same index, so the batch ends
  up in reverse order.
\<close>

lemma server_path_batch_reversed:
  "(case insertItems measure100
           (grid_ab\<lparr>serverRefs := [(250, 100), (250, 100), (250, 100), (250, 100)]\<rparr>)
           [''r1'', ''r2''] (Some 0) (Some 1) False of
      Inr s' \<Rightarrow> map itemData (gridItems s' ! 0)
    | Inl e \<Rightarrow> []) = [''a'', ''r2'', ''r1'', ''b'']"
  by (simp add: insertItems_eval example_defs)

text \<open>
  Claim C5, as amended. On a grid that has its columns, \<open>insertItems\<close> with a target
  column that does not exist adds no item: the columns and every item in them are
  unchanged, and so is the count of feed items. (The target index is not checked.)
\<close>

theorem insertItems_missing_column:
  assumes "gridItems s \<noteq> []" and "length (gridItems s) \<le> c"
  shows "\<exists>s'. insertItems measureItem s newItems (Some c) (Some i) False = Inr s' \<and>
           gridItems s' = gridItems s \<and> allItems s' = allItems s \<and>
           insertedItemsCount s' = insertedItemsCount s"
  using assms
  by (simp add: insertItems_def Let_def initColumns_def placeItems_no_column allItems_def)

theorem insertItems_missing_column_witness:
  "gridItems grid_ab \<noteq> [] \<and> length (gridItems grid_ab) \<le> 3 \<and>
   insertItems measure100 grid_ab [''r''] (Some 3) (Some 0) False
     = Inr (grid_ab\<lparr>itemKeyCounter := 4\<rparr>) \<and>
   gridItems (grid_ab\<lparr>itemKeyCounter := 4\<rparr>) = gridItems grid_ab"
  using insertItems_missing_column [of grid_ab 3 measure100 "[''r'']" 0]
  by (simp add: insertItems_eval example_defs)

text \<open>
  Claim C5 as stated fails for a target index that does not exist: column 0 of
  \<open>grid_ab\<close> has two items, and an insertion at index 5 adds \<open>r\<close> at its end.
\<close>

theorem insertItems_missing_index_counterexample:
  "\<not> 5 < length (gridItems grid_ab ! 0) \<and>
   insertItems measure100 grid_ab [''r''] (Some 0) (Some 5) False = Inr grid_ab_r \<and>
   gridItems grid_ab_r \<noteq> gridItems grid_ab \<and>
   map itemData (gridItems grid_ab_r ! 0) = [''a'', ''b'', ''r'']"
  by (simp add: insertItems_eval example_defs)

end
